theory Spec2Isabelle
  imports Main "HOL-Library.Word"
begin

section \<open>Values, exceptions and the outside world\<close>

text \<open>
  The bot of \<^verbatim>\<open>homework.py\<close> polls a status endpoint, renders the first
  homework of the answer and forwards the text through a Telegram bot. The model below
  follows the source function by function.

  Python strings are modelled as \<^typ>\<open>string\<close> holding the UTF-8 bytes of the text: the
  Cyrillic literals of the source are written byte by byte. UTF-8 is injective and
  compatible with concatenation and with substring search, which are the only string
  operations the source uses (\<^verbatim>\<open>!=\<close>, f-strings, \<^verbatim>\<open>in\<close>).

  Calls to \<^verbatim>\<open>logging\<close> have no influence on control flow or on the data and are
  left out.
\<close>

subsection \<open>Decoded JSON\<close>

text \<open>
  What \<^verbatim>\<open>response.json()\<close> can return: \<^verbatim>\<open>None\<close>, a bool, an unbounded
  int, a float (kept as its 64 bits), a str, a list, or a dict with str keys (an
  association list read with \<^const>\<open>map_of\<close>).
\<close>

datatype json =
    JNull
  | JBool bool
  | JInt int
  | JFloat "64 word"
  | JStr string
  | JList "json list"
  | JDict "(string \<times> json) list"

definition dict_has :: "(string \<times> json) list \<Rightarrow> string \<Rightarrow> bool" where
  \<comment> \<open>\<^verbatim>\<open>key in d\<close>\<close>
  "dict_has d k = (map_of d k \<noteq> None)"

definition dict_get :: "(string \<times> json) list \<Rightarrow> string \<Rightarrow> json" where
  \<comment> \<open>\<^verbatim>\<open>d.get(key)\<close>: \<^verbatim>\<open>None\<close> for an absent key\<close>
  "dict_get d k = (case map_of d k of None \<Rightarrow> JNull | Some v \<Rightarrow> v)"

fun py_truthy :: "json \<Rightarrow> bool" where
  \<comment> \<open>the truth value Python gives a value in \<^verbatim>\<open>if v\<close> and \<^verbatim>\<open>v or w\<close>\<close>
  "py_truthy JNull = False"
| "py_truthy (JBool b) = b"
| "py_truthy (JInt i) = (i \<noteq> 0)"
| "py_truthy (JFloat w) = (w \<noteq> 0 \<and> w \<noteq> 0x8000000000000000)"
| "py_truthy (JStr s) = (s \<noteq> [])"
| "py_truthy (JList xs) = (xs \<noteq> [])"
| "py_truthy (JDict d) = (d \<noteq> [])"

fun py_type_name :: "json \<Rightarrow> string" where
  "py_type_name JNull = ''NoneType''"
| "py_type_name (JBool b) = ''bool''"
| "py_type_name (JInt i) = ''int''"
| "py_type_name (JFloat w) = ''float''"
| "py_type_name (JStr s) = ''str''"
| "py_type_name (JList xs) = ''list''"
| "py_type_name (JDict d) = ''dict''"

subsection \<open>Formatting values\<close>

fun str_nat :: "nat \<Rightarrow> string" where
  "str_nat n =
     (if n < 10 then [char_of (48 + n)]
      else str_nat (n div 10) @ [char_of (48 + n mod 10)])"

declare str_nat.simps [simp del]

definition str_int :: "int \<Rightarrow> string" where
  "str_int i = (if i < 0 then ''-'' @ str_nat (nat (- i)) else str_nat (nat i))"

text \<open>
  \<^verbatim>\<open>f'{v}'\<close> is \<^verbatim>\<open>str(v)\<close>. For a str it is the text itself, for
  \<^verbatim>\<open>None\<close>, bools and ints the fixed renderings below. For floats, lists and dicts
  \<^verbatim>\<open>str\<close> is \<^verbatim>\<open>repr\<close>, a built-in of the interpreter that depends on the
  Unicode database; it is the parameter \<open>repr\<close> of every function that formats a
  value.
\<close>

fun py_str :: "(json \<Rightarrow> string) \<Rightarrow> json \<Rightarrow> string" where
  "py_str repr JNull = ''None''"
| "py_str repr (JBool b) = (if b then ''True'' else ''False'')"
| "py_str repr (JInt i) = str_int i"
| "py_str repr (JStr s) = s"
| "py_str repr v = repr v"

fun repr_plain :: "json \<Rightarrow> string" where
  \<comment> \<open>Python's \<^verbatim>\<open>repr\<close> on the values used in the examples of this theory:
      a str of printable characters without quotes or backslashes is put between
      single quotes; ints, bools and \<^verbatim>\<open>None\<close> print as \<^verbatim>\<open>str\<close> does.
      Floats, lists and dicts are not formatted in any example.\<close>
  "repr_plain (JStr s) = [CHR 0x27] @ s @ [CHR 0x27]"
| "repr_plain v = py_str (\<lambda>_. []) v"

subsection \<open>Exceptions\<close>

text \<open>
  Every exception class the program can meet, each with the argument it was built with.
  \<open>LibraryError\<close> stands for an exception raised inside \<^verbatim>\<open>requests\<close>,
  the JSON decoder or \<^verbatim>\<open>telegram\<close>; the program only ever formats it, so it
  carries its \<^verbatim>\<open>str()\<close>. All of them derive from \<^verbatim>\<open>Exception\<close>, so
  \<^verbatim>\<open>except Exception\<close> catches each of them.
\<close>

datatype error =
    APIEndPointIsNotAvailable string
  | NonCorrectResponseFromAPI string
  | TypeError string
  | KeyError string
  | AttributeError string
  | Exception string
  | LibraryError string

fun str_error :: "(json \<Rightarrow> string) \<Rightarrow> error \<Rightarrow> string" where
  \<comment> \<open>\<^verbatim>\<open>f'{error}'\<close>: the argument, except that \<^verbatim>\<open>KeyError\<close> prints the
      \<^verbatim>\<open>repr\<close> of its argument\<close>
  "str_error repr (KeyError a) = repr (JStr a)"
| "str_error repr (APIEndPointIsNotAvailable a) = a"
| "str_error repr (NonCorrectResponseFromAPI a) = a"
| "str_error repr (TypeError a) = a"
| "str_error repr (AttributeError a) = a"
| "str_error repr (Exception a) = a"
| "str_error repr (LibraryError a) = a"

text \<open>Messages the interpreter itself produces (wording of CPython 3.7 to 3.12).\<close>

definition no_attribute_get :: "json \<Rightarrow> error" where
  \<comment> \<open>\<^verbatim>\<open>v.get(...)\<close> on a value that is not a dict\<close>
  "no_attribute_get v =
     AttributeError ([CHR 0x27] @ py_type_name v @ [CHR 0x27] @ '' object has no attribute ''
                     @ [CHR 0x27] @ ''get'' @ [CHR 0x27])"

definition unhashable :: "json \<Rightarrow> error" where
  \<comment> \<open>a list or dict used as a dictionary key\<close>
  "unhashable v = TypeError (''unhashable type: '' @ [CHR 0x27] @ py_type_name v @ [CHR 0x27])"

definition not_iterable :: "json \<Rightarrow> error" where
  \<comment> \<open>\<^verbatim>\<open>x in v\<close> on \<^verbatim>\<open>None\<close>, a bool or a number\<close>
  "not_iterable v =
     TypeError (''argument of type '' @ [CHR 0x27] @ py_type_name v @ [CHR 0x27]
                @ '' is not iterable'')"

subsection \<open>What the program does to the outside world\<close>

datatype event =
    Request json      \<comment> \<open>one \<^verbatim>\<open>requests.get\<close> with this \<^verbatim>\<open>from_date\<close>\<close>
  | Send string bool  \<comment> \<open>one \<^verbatim>\<open>bot.send_message\<close> with this text; did it succeed?\<close>
  | Sleep nat         \<comment> \<open>one \<^verbatim>\<open>time.sleep\<close>\<close>

datatype http_result =
    ConnectionFailed string
      \<comment> \<open>\<^verbatim>\<open>requests.get\<close> raised; the \<^verbatim>\<open>str()\<close> of its exception\<close>
  | Response int "string + json"
      \<comment> \<open>status code, and what \<^verbatim>\<open>response.json()\<close> does: raise (the
          \<^verbatim>\<open>str()\<close> of the exception) or return the decoded body\<close>

text \<open>
  What the world answers during one cycle of the loop: the clock read by
  \<^verbatim>\<open>time.time()\<close>, the answer to the HTTP request, and the outcome of the Telegram
  call for the status message and for the failure message, should the cycle make them
  (\<open>None\<close>: delivered, \<open>Some e\<close>: the library raised an exception with text \<open>e\<close>).
\<close>

record cycle_env =
  clock :: int
  http :: http_result
  tg_status :: "string option"
  tg_failure :: "string option"

subsection \<open>Constants and string literals of the source\<close>

definition RETRY_PERIOD :: nat where
  "RETRY_PERIOD = 600"

definition HTTP_OK :: int where
  "HTTP_OK = 200"

definition verdict_approved :: string where
  \<comment> \<open>homework.py line 26: Work reviewed: the reviewer liked everything. Hooray!\<close>
  "verdict_approved =
     [CHR 0xD0, CHR 0xA0, CHR 0xD0, CHR 0xB0, CHR 0xD0, CHR 0xB1, CHR 0xD0, CHR 0xBE, CHR 0xD1,
     CHR 0x82, CHR 0xD0, CHR 0xB0] @ '' '' @ [CHR 0xD0, CHR 0xBF, CHR 0xD1, CHR 0x80, CHR 0xD0,
     CHR 0xBE, CHR 0xD0, CHR 0xB2, CHR 0xD0, CHR 0xB5, CHR 0xD1, CHR 0x80, CHR 0xD0, CHR 0xB5,
     CHR 0xD0, CHR 0xBD, CHR 0xD0, CHR 0xB0] @ '': '' @ [CHR 0xD1, CHR 0x80, CHR 0xD0,
     CHR 0xB5, CHR 0xD0, CHR 0xB2, CHR 0xD1, CHR 0x8C, CHR 0xD1, CHR 0x8E, CHR 0xD0, CHR 0xB5,
     CHR 0xD1, CHR 0x80, CHR 0xD1, CHR 0x83] @ '' '' @ [CHR 0xD0, CHR 0xB2, CHR 0xD1, CHR 0x81,
     CHR 0xD1, CHR 0x91] @ '' '' @ [CHR 0xD0, CHR 0xBF, CHR 0xD0, CHR 0xBE, CHR 0xD0, CHR 0xBD,
     CHR 0xD1, CHR 0x80, CHR 0xD0, CHR 0xB0, CHR 0xD0, CHR 0xB2, CHR 0xD0, CHR 0xB8, CHR 0xD0,
     CHR 0xBB, CHR 0xD0, CHR 0xBE, CHR 0xD1, CHR 0x81, CHR 0xD1, CHR 0x8C] @ ''. ''
     @ [CHR 0xD0, CHR 0xA3, CHR 0xD1, CHR 0x80, CHR 0xD0, CHR 0xB0] @ ''!''"

definition verdict_reviewing :: string where
  \<comment> \<open>homework.py line 27: Work taken for review by the reviewer.\<close>
  "verdict_reviewing =
     [CHR 0xD0, CHR 0xA0, CHR 0xD0, CHR 0xB0, CHR 0xD0, CHR 0xB1, CHR 0xD0, CHR 0xBE, CHR 0xD1,
     CHR 0x82, CHR 0xD0, CHR 0xB0] @ '' '' @ [CHR 0xD0, CHR 0xB2, CHR 0xD0, CHR 0xB7, CHR 0xD1,
     CHR 0x8F, CHR 0xD1, CHR 0x82, CHR 0xD0, CHR 0xB0] @ '' '' @ [CHR 0xD0, CHR 0xBD, CHR 0xD0,
     CHR 0xB0] @ '' '' @ [CHR 0xD0, CHR 0xBF, CHR 0xD1, CHR 0x80, CHR 0xD0, CHR 0xBE, CHR 0xD0,
     CHR 0xB2, CHR 0xD0, CHR 0xB5, CHR 0xD1, CHR 0x80, CHR 0xD0, CHR 0xBA, CHR 0xD1, CHR 0x83]
     @ '' '' @ [CHR 0xD1, CHR 0x80, CHR 0xD0, CHR 0xB5, CHR 0xD0, CHR 0xB2, CHR 0xD1, CHR 0x8C,
     CHR 0xD1, CHR 0x8E, CHR 0xD0, CHR 0xB5, CHR 0xD1, CHR 0x80, CHR 0xD0, CHR 0xBE, CHR 0xD0,
     CHR 0xBC] @ ''.''"

definition verdict_rejected :: string where
  \<comment> \<open>homework.py line 28: Work reviewed: the reviewer has remarks.\<close>
  "verdict_rejected =
     [CHR 0xD0, CHR 0xA0, CHR 0xD0, CHR 0xB0, CHR 0xD0, CHR 0xB1, CHR 0xD0, CHR 0xBE, CHR 0xD1,
     CHR 0x82, CHR 0xD0, CHR 0xB0] @ '' '' @ [CHR 0xD0, CHR 0xBF, CHR 0xD1, CHR 0x80, CHR 0xD0,
     CHR 0xBE, CHR 0xD0, CHR 0xB2, CHR 0xD0, CHR 0xB5, CHR 0xD1, CHR 0x80, CHR 0xD0, CHR 0xB5,
     CHR 0xD0, CHR 0xBD, CHR 0xD0, CHR 0xB0] @ '': '' @ [CHR 0xD1, CHR 0x83] @ '' ''
     @ [CHR 0xD1, CHR 0x80, CHR 0xD0, CHR 0xB5, CHR 0xD0, CHR 0xB2, CHR 0xD1, CHR 0x8C,
     CHR 0xD1, CHR 0x8E, CHR 0xD0, CHR 0xB5, CHR 0xD1, CHR 0x80, CHR 0xD0, CHR 0xB0] @ '' ''
     @ [CHR 0xD0, CHR 0xB5, CHR 0xD1, CHR 0x81, CHR 0xD1, CHR 0x82, CHR 0xD1, CHR 0x8C] @ '' ''
     @ [CHR 0xD0, CHR 0xB7, CHR 0xD0, CHR 0xB0, CHR 0xD0, CHR 0xBC, CHR 0xD0, CHR 0xB5,
     CHR 0xD1, CHR 0x87, CHR 0xD0, CHR 0xB0, CHR 0xD0, CHR 0xBD, CHR 0xD0, CHR 0xB8, CHR 0xD1,
     CHR 0x8F] @ ''.''"

definition tokens_missing_text :: string where
  \<comment> \<open>homework.py line 144: Environment variables are missing. The bot stops!\<close>
  "tokens_missing_text =
     [CHR 0xD0, CHR 0x9E, CHR 0xD1, CHR 0x82, CHR 0xD1, CHR 0x81, CHR 0xD1, CHR 0x83, CHR 0xD1,
     CHR 0x82, CHR 0xD1, CHR 0x81, CHR 0xD1, CHR 0x82, CHR 0xD0, CHR 0xB2, CHR 0xD1, CHR 0x83,
     CHR 0xD1, CHR 0x8E, CHR 0xD1, CHR 0x82] @ '' '' @ [CHR 0xD0, CHR 0xBF, CHR 0xD0, CHR 0xB5,
     CHR 0xD1, CHR 0x80, CHR 0xD0, CHR 0xB5, CHR 0xD0, CHR 0xBC, CHR 0xD0, CHR 0xB5, CHR 0xD0,
     CHR 0xBD, CHR 0xD0, CHR 0xBD, CHR 0xD1, CHR 0x8B, CHR 0xD0, CHR 0xB5] @ '' '' @ [CHR 0xD0,
     CHR 0xBE, CHR 0xD0, CHR 0xBA, CHR 0xD1, CHR 0x80, CHR 0xD1, CHR 0x83, CHR 0xD0, CHR 0xB6,
     CHR 0xD0, CHR 0xB5, CHR 0xD0, CHR 0xBD, CHR 0xD0, CHR 0xB8, CHR 0xD1, CHR 0x8F] @ ''. ''
     @ [CHR 0xD0, CHR 0x91, CHR 0xD0, CHR 0xBE, CHR 0xD1, CHR 0x82] @ '' '' @ [CHR 0xD0,
     CHR 0xBF, CHR 0xD1, CHR 0x80, CHR 0xD0, CHR 0xB5, CHR 0xD0, CHR 0xBA, CHR 0xD1, CHR 0x80,
     CHR 0xD0, CHR 0xB0, CHR 0xD1, CHR 0x89, CHR 0xD0, CHR 0xB0, CHR 0xD0, CHR 0xB5, CHR 0xD1,
     CHR 0x82] @ '' '' @ [CHR 0xD1, CHR 0x80, CHR 0xD0, CHR 0xB0, CHR 0xD0, CHR 0xB1, CHR 0xD0,
     CHR 0xBE, CHR 0xD1, CHR 0x82, CHR 0xD1, CHR 0x83] @ ''!''"

definition bot_started_text :: string where
  \<comment> \<open>homework.py lines 148 and 151: Telegram bot started working\<close>
  "bot_started_text =
     ''Telegram bot '' @ [CHR 0xD0, CHR 0xBD, CHR 0xD0, CHR 0xB0, CHR 0xD1, CHR 0x87, CHR 0xD0,
     CHR 0xB0, CHR 0xD0, CHR 0xBB] @ '' '' @ [CHR 0xD1, CHR 0x80, CHR 0xD0, CHR 0xB0, CHR 0xD0,
     CHR 0xB1, CHR 0xD0, CHR 0xBE, CHR 0xD1, CHR 0x82, CHR 0xD1, CHR 0x83]"

definition status_unchanged_text :: string where
  \<comment> \<open>homework.py line 161: Status has not changed; 19 letters and spaces, no full stop\<close>
  "status_unchanged_text =
     [CHR 0xD0, CHR 0xA1, CHR 0xD1, CHR 0x82, CHR 0xD0, CHR 0xB0, CHR 0xD1, CHR 0x82, CHR 0xD1,
     CHR 0x83, CHR 0xD1, CHR 0x81] @ '' '' @ [CHR 0xD0, CHR 0xBD, CHR 0xD0, CHR 0xB5] @ '' ''
     @ [CHR 0xD0, CHR 0xB8, CHR 0xD0, CHR 0xB7, CHR 0xD0, CHR 0xBC, CHR 0xD0, CHR 0xB5,
     CHR 0xD0, CHR 0xBD, CHR 0xD0, CHR 0xB8, CHR 0xD0, CHR 0xBB, CHR 0xD1, CHR 0x81, CHR 0xD1,
     CHR 0x8F]"

definition failure_prefix :: string where
  \<comment> \<open>homework.py line 167: Failure in the program: \<close>
  "failure_prefix =
     [CHR 0xD0, CHR 0xA1, CHR 0xD0, CHR 0xB1, CHR 0xD0, CHR 0xBE, CHR 0xD0, CHR 0xB9] @ '' ''
     @ [CHR 0xD0, CHR 0xB2] @ '' '' @ [CHR 0xD1, CHR 0x80, CHR 0xD0, CHR 0xB0, CHR 0xD0,
     CHR 0xB1, CHR 0xD0, CHR 0xBE, CHR 0xD1, CHR 0x82, CHR 0xD0, CHR 0xB5] @ '' '' @ [CHR 0xD0,
     CHR 0xBF, CHR 0xD1, CHR 0x80, CHR 0xD0, CHR 0xBE, CHR 0xD0, CHR 0xB3, CHR 0xD1, CHR 0x80,
     CHR 0xD0, CHR 0xB0, CHR 0xD0, CHR 0xBC, CHR 0xD0, CHR 0xBC, CHR 0xD1, CHR 0x8B] @ '': ''"

definition send_failed_prefix :: string where
  \<comment> \<open>homework.py line 53: Error while sending the status message: \<close>
  "send_failed_prefix =
     [CHR 0xD0, CHR 0x9E, CHR 0xD1, CHR 0x88, CHR 0xD0, CHR 0xB8, CHR 0xD0, CHR 0xB1, CHR 0xD0,
     CHR 0xBA, CHR 0xD0, CHR 0xB0] @ '' '' @ [CHR 0xD0, CHR 0xBF, CHR 0xD1, CHR 0x80, CHR 0xD0,
     CHR 0xB8] @ '' '' @ [CHR 0xD0, CHR 0xBE, CHR 0xD1, CHR 0x82, CHR 0xD0, CHR 0xBF, CHR 0xD1,
     CHR 0x80, CHR 0xD0, CHR 0xB0, CHR 0xD0, CHR 0xB2, CHR 0xD0, CHR 0xBA, CHR 0xD0, CHR 0xB5]
     @ '' '' @ [CHR 0xD1, CHR 0x81, CHR 0xD0, CHR 0xBE, CHR 0xD0, CHR 0xBE, CHR 0xD0, CHR 0xB1,
     CHR 0xD1, CHR 0x89, CHR 0xD0, CHR 0xB5, CHR 0xD0, CHR 0xBD, CHR 0xD0, CHR 0xB8, CHR 0xD1,
     CHR 0x8F] @ ''-'' @ [CHR 0xD1, CHR 0x81, CHR 0xD1, CHR 0x82, CHR 0xD0, CHR 0xB0, CHR 0xD1,
     CHR 0x82, CHR 0xD1, CHR 0x83, CHR 0xD1, CHR 0x81] @ '': ''"

definition not_ok_text :: string where
  \<comment> \<open>homework.py line 77: The API answer did not return status 200 OK.\<close>
  "not_ok_text =
     [CHR 0xD0, CHR 0x9E, CHR 0xD1, CHR 0x82, CHR 0xD0, CHR 0xB2, CHR 0xD0, CHR 0xB5, CHR 0xD1,
     CHR 0x82] @ '' API '' @ [CHR 0xD0, CHR 0xBD, CHR 0xD0, CHR 0xB5] @ '' '' @ [CHR 0xD0,
     CHR 0xB2, CHR 0xD0, CHR 0xB5, CHR 0xD1, CHR 0x80, CHR 0xD0, CHR 0xBD, CHR 0xD1, CHR 0x83,
     CHR 0xD0, CHR 0xBB] @ '' '' @ [CHR 0xD1, CHR 0x81, CHR 0xD1, CHR 0x82, CHR 0xD0, CHR 0xB0,
     CHR 0xD1, CHR 0x82, CHR 0xD1, CHR 0x83, CHR 0xD1, CHR 0x81] @ '' 200 '' @ [CHR 0xD0,
     CHR 0x9E, CHR 0xD0, CHR 0x9A] @ ''.''"

definition request_failed_prefix :: string where
  \<comment> \<open>homework.py line 85: Error while requesting the API: \<close>
  "request_failed_prefix =
     [CHR 0xD0, CHR 0x9E, CHR 0xD1, CHR 0x88, CHR 0xD0, CHR 0xB8, CHR 0xD0, CHR 0xB1, CHR 0xD0,
     CHR 0xBA, CHR 0xD0, CHR 0xB0] @ '' '' @ [CHR 0xD0, CHR 0xBF, CHR 0xD1, CHR 0x80, CHR 0xD0,
     CHR 0xB8] @ '' '' @ [CHR 0xD0, CHR 0xB7, CHR 0xD0, CHR 0xB0, CHR 0xD0, CHR 0xBF, CHR 0xD1,
     CHR 0x80, CHR 0xD0, CHR 0xBE, CHR 0xD1, CHR 0x81, CHR 0xD0, CHR 0xB5] @ '' '' @ [CHR 0xD0,
     CHR 0xBA] @ '' API: ''"

definition not_dict_text :: string where
  \<comment> \<open>homework.py line 97: The received API answer is not a dict\<close>
  "not_dict_text =
     [CHR 0xD0, CHR 0x9F, CHR 0xD0, CHR 0xBE, CHR 0xD0, CHR 0xBB, CHR 0xD1, CHR 0x83, CHR 0xD1,
     CHR 0x87, CHR 0xD0, CHR 0xB5, CHR 0xD0, CHR 0xBD, CHR 0xD0, CHR 0xBD, CHR 0xD1, CHR 0x8B,
     CHR 0xD0, CHR 0xB9] @ '' '' @ [CHR 0xD0, CHR 0xBE, CHR 0xD1, CHR 0x82, CHR 0xD0, CHR 0xB2,
     CHR 0xD0, CHR 0xB5, CHR 0xD1, CHR 0x82] @ '' API '' @ [CHR 0xD0, CHR 0xBD, CHR 0xD0,
     CHR 0xB5] @ '' '' @ [CHR 0xD1, CHR 0x8F, CHR 0xD0, CHR 0xB2, CHR 0xD0, CHR 0xBB, CHR 0xD1,
     CHR 0x8F, CHR 0xD0, CHR 0xB5, CHR 0xD1, CHR 0x82, CHR 0xD1, CHR 0x81, CHR 0xD1, CHR 0x8F]
     @ '' dict''"

definition no_homeworks_key_text :: string where
  \<comment> \<open>homework.py line 100: No key homeworks in the API answer\<close>
  "no_homeworks_key_text =
     [CHR 0xD0, CHR 0x9D, CHR 0xD0, CHR 0xB5, CHR 0xD1, CHR 0x82] @ '' '' @ [CHR 0xD0,
     CHR 0xBA, CHR 0xD0, CHR 0xBB, CHR 0xD1, CHR 0x8E, CHR 0xD1, CHR 0x87, CHR 0xD0, CHR 0xB0]
     @ '' homeworks '' @ [CHR 0xD0, CHR 0xB2] @ '' '' @ [CHR 0xD0, CHR 0xBE, CHR 0xD1,
     CHR 0x82, CHR 0xD0, CHR 0xB2, CHR 0xD0, CHR 0xB5, CHR 0xD1, CHR 0x82, CHR 0xD0, CHR 0xB5]
     @ '' API''"

definition not_list_prefix :: string where
  \<comment> \<open>homework.py line 104, before the value: Answer in API homeworks:\<close>
  "not_list_prefix =
     [CHR 0xD0, CHR 0x9E, CHR 0xD1, CHR 0x82, CHR 0xD0, CHR 0xB2, CHR 0xD0, CHR 0xB5, CHR 0xD1,
     CHR 0x82] @ '' '' @ [CHR 0xD0, CHR 0xB2] @ '' API homeworks:''"

definition not_list_suffix :: string where
  \<comment> \<open>homework.py line 104, after the value:  is not a list\<close>
  "not_list_suffix =
     '' '' @ [CHR 0xD0, CHR 0xBD, CHR 0xD0, CHR 0xB5] @ '' '' @ [CHR 0xD1, CHR 0x8F, CHR 0xD0,
     CHR 0xB2, CHR 0xD0, CHR 0xBB, CHR 0xD1, CHR 0x8F, CHR 0xD0, CHR 0xB5, CHR 0xD1, CHR 0x82,
     CHR 0xD1, CHR 0x81, CHR 0xD1, CHR 0x8F] @ '' list''"

definition no_homework_name_text :: string where
  \<comment> \<open>homework.py line 117: No key homework_name in the API answer\<close>
  "no_homework_name_text =
     [CHR 0xD0, CHR 0x9D, CHR 0xD0, CHR 0xB5, CHR 0xD1, CHR 0x82] @ '' '' @ [CHR 0xD0,
     CHR 0xBA, CHR 0xD0, CHR 0xBB, CHR 0xD1, CHR 0x8E, CHR 0xD1, CHR 0x87, CHR 0xD0, CHR 0xB0]
     @ '' homework_name '' @ [CHR 0xD0, CHR 0xB2] @ '' '' @ [CHR 0xD0, CHR 0xBE, CHR 0xD1,
     CHR 0x82, CHR 0xD0, CHR 0xB2, CHR 0xD0, CHR 0xB5, CHR 0xD1, CHR 0x82, CHR 0xD0, CHR 0xB5]
     @ '' API''"

definition unknown_status_prefix :: string where
  \<comment> \<open>homework.py line 123: Unknown work status - \<close>
  "unknown_status_prefix =
     [CHR 0xD0, CHR 0x9D, CHR 0xD0, CHR 0xB5, CHR 0xD0, CHR 0xB8, CHR 0xD0, CHR 0xB7, CHR 0xD0,
     CHR 0xB2, CHR 0xD0, CHR 0xB5, CHR 0xD1, CHR 0x81, CHR 0xD1, CHR 0x82, CHR 0xD0, CHR 0xBD,
     CHR 0xD1, CHR 0x8B, CHR 0xD0, CHR 0xB9] @ '' '' @ [CHR 0xD1, CHR 0x81, CHR 0xD1, CHR 0x82,
     CHR 0xD0, CHR 0xB0, CHR 0xD1, CHR 0x82, CHR 0xD1, CHR 0x83, CHR 0xD1, CHR 0x81] @ '' ''
     @ [CHR 0xD1, CHR 0x80, CHR 0xD0, CHR 0xB0, CHR 0xD0, CHR 0xB1, CHR 0xD0, CHR 0xBE,
     CHR 0xD1, CHR 0x82, CHR 0xD1, CHR 0x8B] @ '' - ''"

definition status_changed_prefix :: string where
  \<comment> \<open>homework.py line 127, up to and including the opening double quote: The review status of work " has changed\<close>
  "status_changed_prefix =
     [CHR 0xD0, CHR 0x98, CHR 0xD0, CHR 0xB7, CHR 0xD0, CHR 0xBC, CHR 0xD0, CHR 0xB5, CHR 0xD0,
     CHR 0xBD, CHR 0xD0, CHR 0xB8, CHR 0xD0, CHR 0xBB, CHR 0xD1, CHR 0x81, CHR 0xD1, CHR 0x8F]
     @ '' '' @ [CHR 0xD1, CHR 0x81, CHR 0xD1, CHR 0x82, CHR 0xD0, CHR 0xB0, CHR 0xD1, CHR 0x82,
     CHR 0xD1, CHR 0x83, CHR 0xD1, CHR 0x81] @ '' '' @ [CHR 0xD0, CHR 0xBF, CHR 0xD1, CHR 0x80,
     CHR 0xD0, CHR 0xBE, CHR 0xD0, CHR 0xB2, CHR 0xD0, CHR 0xB5, CHR 0xD1, CHR 0x80, CHR 0xD0,
     CHR 0xBA, CHR 0xD0, CHR 0xB8] @ '' '' @ [CHR 0xD1, CHR 0x80, CHR 0xD0, CHR 0xB0, CHR 0xD0,
     CHR 0xB1, CHR 0xD0, CHR 0xBE, CHR 0xD1, CHR 0x82, CHR 0xD1, CHR 0x8B] @ '' '' @ [CHR 0x22]"

definition status_changed_infix :: string where
  \<comment> \<open>homework.py line 127, closing double quote, full stop, space\<close>
  "status_changed_infix =
     [CHR 0x22] @ ''. ''"

definition HOMEWORK_VERDICTS :: "(string \<times> string) list" where
  "HOMEWORK_VERDICTS =
     [(''approved'', verdict_approved),
      (''reviewing'', verdict_reviewing),
      (''rejected'', verdict_rejected)]"

section \<open>The functions of \<^verbatim>\<open>homework.py\<close>\<close>

subsection \<open>\<^verbatim>\<open>check_tokens\<close> and \<^verbatim>\<open>send_message\<close>\<close>

definition check_tokens :: "string option \<Rightarrow> string option \<Rightarrow> string option \<Rightarrow> bool" where
  \<comment> \<open>\<^verbatim>\<open>all([...])\<close> over the three environment variables: each must be set and
      not empty\<close>
  "check_tokens practicum_token telegram_token telegram_chat_id =
     list_all (\<lambda>t. t \<noteq> None \<and> t \<noteq> Some [])
       [practicum_token, telegram_token, telegram_chat_id]"

definition send_message :: "string option \<Rightarrow> string \<Rightarrow> (error + unit) \<times> event list" where
  \<comment> \<open>one call of the Telegram library; when it raises, the exception is wrapped in a
      plain \<^verbatim>\<open>Exception\<close> and raised again\<close>
  "send_message outcome message =
     (case outcome of
        None \<Rightarrow> (Inr (), [Send message True])
      | Some e \<Rightarrow> (Inl (Exception (send_failed_prefix @ e)), [Send message False]))"

subsection \<open>\<^verbatim>\<open>get_api_answer\<close>\<close>

definition request_body :: "http_result \<Rightarrow> error + json" where
  \<comment> \<open>the body of the \<^verbatim>\<open>try\<close> of \<^verbatim>\<open>get_api_answer\<close>, lines 68 to 82\<close>
  "request_body res =
     (case res of
        ConnectionFailed e \<Rightarrow> Inl (LibraryError e)
      | Response status_code decoded \<Rightarrow>
          if status_code \<noteq> HTTP_OK then Inl (APIEndPointIsNotAvailable not_ok_text)
          else (case decoded of
                  Inl e \<Rightarrow> Inl (LibraryError e)
                | Inr response_json \<Rightarrow> Inr response_json))"

definition api_answer :: "(json \<Rightarrow> string) \<Rightarrow> http_result \<Rightarrow> error + json" where
  \<comment> \<open>the whole \<^verbatim>\<open>try\<close> statement, lines 67 to 85: any exception of the body,
      the one of line 76 included, is caught and replaced\<close>
  "api_answer repr res =
     (case request_body res of
        Inl error \<Rightarrow>
          Inl (APIEndPointIsNotAvailable (request_failed_prefix @ str_error repr error))
      | Inr response_json \<Rightarrow> Inr response_json)"

definition request_timestamp :: "cycle_env \<Rightarrow> json \<Rightarrow> json" where
  \<comment> \<open>line 63: \<^verbatim>\<open>current_timestamp or int(time.time())\<close>\<close>
  "request_timestamp env current_timestamp =
     (if py_truthy current_timestamp then current_timestamp else JInt (clock env))"

definition get_api_answer ::
  "(json \<Rightarrow> string) \<Rightarrow> cycle_env \<Rightarrow> json \<Rightarrow> (error + json) \<times> event list" where
  "get_api_answer repr env current_timestamp =
     (let timestamp = request_timestamp env current_timestamp
      in (api_answer repr (http env), [Request timestamp]))"

subsection \<open>\<^verbatim>\<open>check_response\<close>\<close>

definition check_response :: "(json \<Rightarrow> string) \<Rightarrow> json \<Rightarrow> error + json list" where
  "check_response repr response =
     (case response of
        JDict d \<Rightarrow>
          if \<not> dict_has d ''homeworks'' \<or> \<not> dict_has d ''current_date''
          then Inl (NonCorrectResponseFromAPI no_homeworks_key_text)
          else (case dict_get d ''homeworks'' of
                  JList homeworks \<Rightarrow> Inr homeworks
                | homeworks \<Rightarrow>
                    Inl (TypeError (not_list_prefix @ py_str repr homeworks @ not_list_suffix)))
      | _ \<Rightarrow> Inl (TypeError not_dict_text))"

subsection \<open>\<^verbatim>\<open>parse_status\<close>\<close>

fun py_contains :: "string \<Rightarrow> string \<Rightarrow> bool" where
  \<comment> \<open>\<^verbatim>\<open>sub in s\<close> on two strs\<close>
  "py_contains sub [] = (sub = [])"
| "py_contains sub (c # cs) = (take (length sub) (c # cs) = sub \<or> py_contains sub cs)"

definition py_in :: "string \<Rightarrow> json \<Rightarrow> error + bool" where
  \<comment> \<open>\<^verbatim>\<open>key in v\<close> for a str \<open>key\<close>: key of a dict, item of a list, substring of a
      str; \<^verbatim>\<open>TypeError\<close> on anything else\<close>
  "py_in k v =
     (case v of
        JDict d \<Rightarrow> Inr (dict_has d k)
      | JList xs \<Rightarrow> Inr (List.member xs (JStr k))
      | JStr s \<Rightarrow> Inr (py_contains k s)
      | _ \<Rightarrow> Inl (not_iterable v))"

definition py_get :: "json \<Rightarrow> string \<Rightarrow> error + json" where
  \<comment> \<open>\<^verbatim>\<open>v.get(key)\<close>: only a dict has the method\<close>
  "py_get v k = (case v of JDict d \<Rightarrow> Inr (dict_get d k) | _ \<Rightarrow> Inl (no_attribute_get v))"

definition in_verdicts :: "json \<Rightarrow> error + bool" where
  \<comment> \<open>\<^verbatim>\<open>homework_status in HOMEWORK_VERDICTS\<close>: the value is hashed first, which a
      list or a dict refuses; a value that is not a str equals no key\<close>
  "in_verdicts v =
     (case v of
        JStr s \<Rightarrow> Inr (map_of HOMEWORK_VERDICTS s \<noteq> None)
      | JList xs \<Rightarrow> Inl (unhashable v)
      | JDict d \<Rightarrow> Inl (unhashable v)
      | _ \<Rightarrow> Inr False)"

definition verdict_of :: "json \<Rightarrow> string option" where
  \<comment> \<open>\<^verbatim>\<open>HOMEWORK_VERDICTS[homework_status]\<close>; \<open>None\<close> where the subscript
      raises \<^verbatim>\<open>KeyError\<close>\<close>
  "verdict_of v = (case v of JStr s \<Rightarrow> map_of HOMEWORK_VERDICTS s | _ \<Rightarrow> None)"

definition parse_status :: "(json \<Rightarrow> string) \<Rightarrow> json \<Rightarrow> error + string" where
  "parse_status repr homework =
     (case py_in ''homework_name'' homework of
        Inl e \<Rightarrow> Inl e
      | Inr False \<Rightarrow> Inl (KeyError no_homework_name_text)
      | Inr True \<Rightarrow>
          (case py_get homework ''homework_name'' of
             Inl e \<Rightarrow> Inl e
           | Inr homework_name \<Rightarrow>
               (case py_get homework ''status'' of
                  Inl e \<Rightarrow> Inl e
                | Inr homework_status \<Rightarrow>
                    (case in_verdicts homework_status of
                       Inl e \<Rightarrow> Inl e
                     | Inr False \<Rightarrow>
                         Inl (KeyError (unknown_status_prefix @ py_str repr homework_status))
                     | Inr True \<Rightarrow>
                         (case verdict_of homework_status of
                            None \<Rightarrow> Inl (KeyError (py_str repr homework_status))
                          | Some verdict \<Rightarrow>
                              Inr (status_changed_prefix @ py_str repr homework_name
                                   @ status_changed_infix @ verdict))))))"

subsection \<open>\<^verbatim>\<open>main\<close>\<close>

record bot_state =
  current_timestamp :: json
  last_message :: string

definition initial_state :: bot_state where
  \<comment> \<open>lines 150 and 152\<close>
  "initial_state = \<lparr>current_timestamp = JInt 1667322796, last_message = []\<rparr>"

definition render :: "(json \<Rightarrow> string) \<Rightarrow> json list \<Rightarrow> error + string" where
  \<comment> \<open>lines 158 to 161: only the first homework is looked at\<close>
  "render repr homeworks_response =
     (case homeworks_response of
        [] \<Rightarrow> Inr status_unchanged_text
      | homework # _ \<Rightarrow> parse_status repr homework)"

definition try_body ::
  "(json \<Rightarrow> string) \<Rightarrow> cycle_env \<Rightarrow> bot_state \<Rightarrow> error option \<times> bot_state \<times> event list" where
  \<comment> \<open>lines 155 to 165; the first component is the exception the block raised, if any.
      Assignments made before the exception stay.\<close>
  "try_body repr env st =
     (case get_api_answer repr env (current_timestamp st) of
        (Inl e, ev) \<Rightarrow> (Some e, st, ev)
      | (Inr response, ev) \<Rightarrow>
          (case py_get response ''current_date'' of
             Inl e \<Rightarrow> (Some e, st, ev)
           | Inr current_date \<Rightarrow>
               (let st1 = st\<lparr>current_timestamp := current_date\<rparr> in
                (case check_response repr response of
                   Inl e \<Rightarrow> (Some e, st1, ev)
                 | Inr homeworks_response \<Rightarrow>
                     (case render repr homeworks_response of
                        Inl e \<Rightarrow> (Some e, st1, ev)
                      | Inr message \<Rightarrow>
                          if message \<noteq> last_message st1
                          then (case send_message (tg_status env) message of
                                  (Inl e, ev2) \<Rightarrow> (Some e, st1, ev @ ev2)
                                | (Inr _, ev2) \<Rightarrow>
                                    (None, st1\<lparr>last_message := message\<rparr>, ev @ ev2))
                          else (None, st1, ev))))))"

definition failure_text :: "(json \<Rightarrow> string) \<Rightarrow> error \<Rightarrow> string" where
  \<comment> \<open>line 167\<close>
  "failure_text repr error = failure_prefix @ str_error repr error"

definition cycle ::
  "(json \<Rightarrow> string) \<Rightarrow> cycle_env \<Rightarrow> bot_state \<Rightarrow> error option \<times> bot_state \<times> event list" where
  \<comment> \<open>one pass through the \<^verbatim>\<open>try\<close>/\<^verbatim>\<open>except\<close>/\<^verbatim>\<open>finally\<close> of lines 154 to
      171. The first component is the exception that leaves the statement: one raised in
      the \<^verbatim>\<open>except\<close> block is not handled, and \<^verbatim>\<open>finally\<close> sleeps before it
      propagates.\<close>
  "cycle repr env st =
     (case try_body repr env st of
        (None, st', ev) \<Rightarrow> (None, st', ev @ [Sleep RETRY_PERIOD])
      | (Some error, st', ev) \<Rightarrow>
          (case send_message (tg_failure env) (failure_text repr error) of
             (Inl e, ev2) \<Rightarrow> (Some e, st', ev @ ev2 @ [Sleep RETRY_PERIOD])
           | (Inr _, ev2) \<Rightarrow> (None, st', ev @ ev2 @ [Sleep RETRY_PERIOD])))"

fun main_loop ::
  "(json \<Rightarrow> string) \<Rightarrow> cycle_env list \<Rightarrow> bot_state \<Rightarrow> error option \<times> bot_state \<times> event list" where
  \<comment> \<open>\<^verbatim>\<open>while True\<close>, observed for as many cycles as the list describes: the loop has
      no exit of its own and ends early only when a cycle lets an exception out\<close>
  "main_loop repr [] st = (None, st, [])"
| "main_loop repr (env # envs) st =
     (case cycle repr env st of
        (Some e, st', ev) \<Rightarrow> (Some e, st', ev)
      | (None, st', ev) \<Rightarrow>
          (case main_loop repr envs st' of (r, st'', ev') \<Rightarrow> (r, st'', ev @ ev')))"

record startup_env =
  practicum_token :: "string option"
  telegram_token :: "string option"
  telegram_chat_id :: "string option"
  tg_started :: "string option"

datatype ending =
    Exited string  \<comment> \<open>\<^verbatim>\<open>sys.exit\<close> with this message\<close>
  | Raised error   \<comment> \<open>an exception nobody caught\<close>

definition main ::
  "(json \<Rightarrow> string) \<Rightarrow> startup_env \<Rightarrow> cycle_env list \<Rightarrow> ending option \<times> bot_state \<times> event list" where
  \<comment> \<open>lines 143 to 171: the token check, the start-up message (sent outside any
      \<^verbatim>\<open>try\<close>), then the loop. \<open>None\<close>: still running after the cycles
      described.\<close>
  "main repr start envs =
     (if \<not> check_tokens (practicum_token start) (telegram_token start) (telegram_chat_id start)
      then (Some (Exited tokens_missing_text), initial_state, [])
      else (case send_message (tg_started start) bot_started_text of
              (Inl e, ev) \<Rightarrow> (Some (Raised e), initial_state, ev)
            | (Inr _, ev) \<Rightarrow>
                (case main_loop repr envs initial_state of
                   (r, st, ev') \<Rightarrow> (map_option Raised r, st, ev @ ev'))))"

subsection \<open>Reading a run\<close>

text \<open>The texts handed to Telegram and the timestamps requested, in order.\<close>

fun send_attempts :: "event list \<Rightarrow> string list" where
  "send_attempts [] = []"
| "send_attempts (Send m ok # evs) = m # send_attempts evs"
| "send_attempts (_ # evs) = send_attempts evs"

fun requests_made :: "event list \<Rightarrow> json list" where
  "requests_made [] = []"
| "requests_made (Request t # evs) = t # requests_made evs"
| "requests_made (_ # evs) = requests_made evs"

text \<open>
  The value lines 155 to 161 leave in \<^verbatim>\<open>message\<close> during a cycle, or the exception
  they raise: fetch, read of \<^verbatim>\<open>current_date\<close>, validation, extraction. It depends
  on the answer of the endpoint only, not on the state of the bot.
\<close>

definition cycle_message :: "(json \<Rightarrow> string) \<Rightarrow> cycle_env \<Rightarrow> error + string" where
  "cycle_message repr env =
     (case api_answer repr (http env) of
        Inl e \<Rightarrow> Inl e
      | Inr response \<Rightarrow>
          (case py_get response ''current_date'' of
             Inl e \<Rightarrow> Inl e
           | Inr current_date \<Rightarrow>
               (case check_response repr response of
                  Inl e \<Rightarrow> Inl e
                | Inr homeworks_response \<Rightarrow> render repr homeworks_response)))"

text \<open>The error kinds and input shapes the specification speaks of.\<close>

definition MalformedResponse :: "error \<Rightarrow> bool" where
  \<comment> \<open>the specification's name for what \<^verbatim>\<open>check_response\<close> raises:
      \<^verbatim>\<open>TypeError\<close> or \<^verbatim>\<open>NonCorrectResponseFromAPI\<close>\<close>
  "MalformedResponse e =
     (case e of TypeError _ \<Rightarrow> True | NonCorrectResponseFromAPI _ \<Rightarrow> True | _ \<Rightarrow> False)"

definition valid_envelope :: "json \<Rightarrow> json list \<Rightarrow> bool" where
  \<comment> \<open>a mapping that has both keys and whose \<^verbatim>\<open>homeworks\<close> value is the list
      \<open>hs\<close>\<close>
  "valid_envelope response hs =
     (\<exists>d. response = JDict d \<and> ''homeworks'' \<in> fst ` set d \<and> ''current_date'' \<in> fst ` set d
          \<and> dict_get d ''homeworks'' = JList hs)"

definition EndpointUnavailable :: "error \<Rightarrow> bool" where
  \<comment> \<open>the specification's name for \<^verbatim>\<open>APIEndPointIsNotAvailable\<close>\<close>
  "EndpointUnavailable e = (case e of APIEndPointIsNotAvailable _ \<Rightarrow> True | _ \<Rightarrow> False)"

definition known_verdicts :: "string set" where
  "known_verdicts = {''approved'', ''reviewing'', ''rejected''}"

definition hashable :: "json \<Rightarrow> bool" where
  \<comment> \<open>every decoded value but a list or a dict can be looked up in a dict\<close>
  "hashable v = (case v of JList _ \<Rightarrow> False | JDict _ \<Rightarrow> False | _ \<Rightarrow> True)"

subsection \<open>Example inputs\<close>

definition homework_record :: "string \<Rightarrow> string \<Rightarrow> json" where
  "homework_record name status = JDict [(''homework_name'', JStr name), (''status'', JStr status)]"

definition homework_list_status :: json where
  \<comment> \<open>a record whose status is a list\<close>
  "homework_list_status =
     JDict [(''homework_name'', JStr ''proj1''), (''status'', JList [JStr ''approved''])]"

definition answer_with :: "json list \<Rightarrow> json" where
  \<comment> \<open>a well-formed answer of the endpoint with these homeworks\<close>
  "answer_with homeworks = JDict [(''homeworks'', JList homeworks), (''current_date'', JInt 1700000000)]"

definition answer_without_homeworks :: json where
  \<comment> \<open>an answer that has a cursor but no \<^verbatim>\<open>homeworks\<close> key\<close>
  "answer_without_homeworks = JDict [(''current_date'', JInt 1700000000)]"

definition env_answer :: "json \<Rightarrow> cycle_env" where
  \<comment> \<open>a cycle in which the endpoint answers 200 with this body and Telegram delivers\<close>
  "env_answer body =
     \<lparr>clock = 1700000600, http = Response 200 (Inr body), tg_status = None, tg_failure = None\<rparr>"

definition env_timeout :: cycle_env where
  \<comment> \<open>a cycle in which the request fails and Telegram delivers\<close>
  "env_timeout =
     \<lparr>clock = 1700000600, http = ConnectionFailed ''timed out'', tg_status = None,
      tg_failure = None\<rparr>"

definition env_offline :: cycle_env where
  \<comment> \<open>a cycle in which the request fails and Telegram cannot be reached either\<close>
  "env_offline =
     \<lparr>clock = 1700000600, http = ConnectionFailed ''timed out'', tg_status = Some ''no route'',
      tg_failure = Some ''no route''\<rparr>"

section \<open>Properties\<close>

subsection \<open>Auxiliary facts\<close>

lemma dict_has_keys: "dict_has d k \<longleftrightarrow> k \<in> fst ` set d"
  by (simp add: dict_has_def map_of_eq_None_iff)

lemma verdicts_dom: "map_of HOMEWORK_VERDICTS s \<noteq> None \<longleftrightarrow> s \<in> known_verdicts"
  by (simp add: HOMEWORK_VERDICTS_def known_verdicts_def)

lemma verdicts_Some:
  "s \<in> known_verdicts \<Longrightarrow> \<exists>verdict. map_of HOMEWORK_VERDICTS s = Some verdict"
  using verdicts_dom [of s] by auto

lemma in_verdicts_hashable:
  "hashable v \<Longrightarrow> in_verdicts v = Inr (v \<in> JStr ` known_verdicts)"
  by (cases v) (auto simp: in_verdicts_def hashable_def verdicts_dom [symmetric])

lemma in_verdicts_True:
  "in_verdicts v = Inr True \<Longrightarrow> \<exists>verdict. verdict_of v = Some verdict"
  by (cases v) (auto simp: in_verdicts_def verdict_of_def)

lemma in_verdicts_Inl:
  assumes "in_verdicts v = Inl e"
  obtains m where "e = TypeError m"
  using assms by (cases v) (auto simp: in_verdicts_def unhashable_def)

lemma parse_status_dict:
  "dict_has d ''homework_name'' \<Longrightarrow>
   parse_status repr (JDict d) =
     (case in_verdicts (dict_get d ''status'') of
        Inl e \<Rightarrow> Inl e
      | Inr False \<Rightarrow> Inl (KeyError (unknown_status_prefix @ py_str repr (dict_get d ''status'')))
      | Inr True \<Rightarrow>
          (case verdict_of (dict_get d ''status'') of
             None \<Rightarrow> Inl (KeyError (py_str repr (dict_get d ''status'')))
           | Some verdict \<Rightarrow>
               Inr (status_changed_prefix @ py_str repr (dict_get d ''homework_name'')
                    @ status_changed_infix @ verdict)))"
  by (simp add: parse_status_def py_in_def py_get_def)

lemma no_name_not_unknown: "no_homework_name_text \<noteq> unknown_status_prefix @ x"
  by (simp add: no_homework_name_text_def unknown_status_prefix_def)

subsection \<open>The response validator\<close>

text \<open>
  Claim C5. \<^verbatim>\<open>check_response\<close> fails exactly when its argument is not a mapping, or
  lacks the \<^verbatim>\<open>homeworks\<close> key or the \<^verbatim>\<open>current_date\<close> key, or holds something
  other than a list under \<^verbatim>\<open>homeworks\<close>; every such failure is one of the two
  exceptions the specification calls MalformedResponse. Otherwise it returns the list
  stored under \<^verbatim>\<open>homeworks\<close>.
\<close>

theorem check_response_exactly:
  "(case check_response repr response of
      Inr hs \<Rightarrow> valid_envelope response hs
    | Inl e \<Rightarrow> MalformedResponse e \<and> (\<forall>hs. \<not> valid_envelope response hs))"
  by (auto simp: check_response_def valid_envelope_def MalformedResponse_def dict_has_keys
      split: json.splits sum.splits)

theorem check_response_exactly_witness:
  "check_response repr_plain (answer_with [homework_record ''proj1'' ''approved''])
     = Inr [homework_record ''proj1'' ''approved'']
   \<and> valid_envelope (answer_with [homework_record ''proj1'' ''approved''])
        [homework_record ''proj1'' ''approved'']
   \<and> check_response repr_plain answer_without_homeworks
        = Inl (NonCorrectResponseFromAPI no_homeworks_key_text)
   \<and> \<not> valid_envelope answer_without_homeworks []"
  using check_response_exactly
      [where repr = repr_plain
         and response = "answer_with [homework_record ''proj1'' ''approved'']"]
    check_response_exactly [where repr = repr_plain and response = answer_without_homeworks]
  by (simp add: check_response_def answer_with_def answer_without_homeworks_def
      dict_has_def dict_get_def)

subsection \<open>Status extraction\<close>

text \<open>
  A record whose status is a list: line 122 looks the status up in
  \<open>HOMEWORK_VERDICTS\<close>, the lookup hashes it, and a list cannot be hashed. The
  exception is the \<^verbatim>\<open>TypeError\<close> of the interpreter, not the unknown-status
  \<^verbatim>\<open>KeyError\<close> of line 123.
\<close>

theorem parse_status_unhashable_status:
  "parse_status repr_plain homework_list_status
     = Inl (TypeError (''unhashable type: '' @ [CHR 0x27] @ ''list'' @ [CHR 0x27]))
   \<and> parse_status repr_plain homework_list_status
     \<noteq> Inl (KeyError (unknown_status_prefix @ py_str repr_plain (JList [JStr ''approved''])))"
  by (simp add: homework_list_status_def parse_status_def py_in_def in_verdicts_def py_get_def dict_has_def dict_get_def
      unhashable_def)

text \<open>
  Claim C6, as the code has it. For a record that has a \<^verbatim>\<open>homework_name\<close> field:
  when its status is one of approved, reviewing, rejected, \<^verbatim>\<open>parse_status\<close>
  returns the text made of the fixed opening, the homework name, and the verdict text
  that \<open>HOMEWORK_VERDICTS\<close> holds for that status; when its status is any other
  value that can be hashed (a str, a number, a bool, \<^verbatim>\<open>None\<close>, which is also what
  an absent field gives), it raises the unknown-status \<^verbatim>\<open>KeyError\<close> whose message
  carries that value; when its status is a list or a dict, it raises the
  \<^verbatim>\<open>TypeError\<close> of the failed hashing.
\<close>

theorem parse_status_verdicts:
  assumes "dict_has d ''homework_name''"
  shows "(\<forall>s. dict_get d ''status'' = JStr s \<and> s \<in> known_verdicts \<longrightarrow>
            (\<exists>verdict. map_of HOMEWORK_VERDICTS s = Some verdict \<and>
               parse_status repr (JDict d) =
                 Inr (status_changed_prefix @ py_str repr (dict_get d ''homework_name'')
                      @ status_changed_infix @ verdict)))
       \<and> (hashable (dict_get d ''status'') \<and> dict_get d ''status'' \<notin> JStr ` known_verdicts \<longrightarrow>
            parse_status repr (JDict d) =
              Inl (KeyError (unknown_status_prefix @ py_str repr (dict_get d ''status''))))
       \<and> (\<not> hashable (dict_get d ''status'') \<longrightarrow>
            parse_status repr (JDict d) = Inl (unhashable (dict_get d ''status'')))"
proof (intro conjI allI impI)
  fix s assume h: "dict_get d ''status'' = JStr s \<and> s \<in> known_verdicts"
  then have "s \<in> known_verdicts" by simp
  then obtain verdict where v: "map_of HOMEWORK_VERDICTS s = Some verdict"
    using verdicts_Some by blast
  have "in_verdicts (JStr s) = Inr True"
    using v by (simp add: in_verdicts_def)
  then have "parse_status repr (JDict d) =
       Inr (status_changed_prefix @ py_str repr (dict_get d ''homework_name'')
            @ status_changed_infix @ verdict)"
    using assms h v by (simp add: parse_status_dict verdict_of_def)
  with v show "\<exists>verdict. map_of HOMEWORK_VERDICTS s = Some verdict \<and>
       parse_status repr (JDict d) =
         Inr (status_changed_prefix @ py_str repr (dict_get d ''homework_name'')
              @ status_changed_infix @ verdict)"
    by blast
next
  assume h: "hashable (dict_get d ''status'') \<and> dict_get d ''status'' \<notin> JStr ` known_verdicts"
  then show "parse_status repr (JDict d) =
       Inl (KeyError (unknown_status_prefix @ py_str repr (dict_get d ''status'')))"
    using assms by (simp add: parse_status_dict in_verdicts_hashable)
next
  assume "\<not> hashable (dict_get d ''status'')"
  then have "in_verdicts (dict_get d ''status'') = Inl (unhashable (dict_get d ''status''))"
    by (cases "dict_get d ''status''") (simp_all add: hashable_def in_verdicts_def)
  then show "parse_status repr (JDict d) = Inl (unhashable (dict_get d ''status''))"
    using assms by (simp add: parse_status_dict)
qed

theorem parse_status_verdicts_witness:
  "dict_has [(''homework_name'', JStr ''proj1''), (''status'', JStr ''approved'')] ''homework_name''
   \<and> parse_status repr_plain (homework_record ''proj1'' ''approved'')
       = Inr (status_changed_prefix @ ''proj1'' @ status_changed_infix @ verdict_approved)
   \<and> parse_status repr_plain (homework_record ''proj1'' ''postponed'')
       = Inl (KeyError (unknown_status_prefix @ ''postponed''))
   \<and> parse_status repr_plain homework_list_status = Inl (unhashable (JList [JStr ''approved'']))"
  using parse_status_verdicts
      [where d = "[(''homework_name'', JStr ''proj1''), (''status'', JStr ''approved'')]"
         and repr = repr_plain]
    parse_status_verdicts
      [where d = "[(''homework_name'', JStr ''proj1''), (''status'', JStr ''postponed'')]"
         and repr = repr_plain]
    parse_status_verdicts
      [where d = "[(''homework_name'', JStr ''proj1''), (''status'', JList [JStr ''approved''])]"
         and repr = repr_plain]
  by (simp add: homework_record_def homework_list_status_def dict_has_def dict_get_def
      known_verdicts_def HOMEWORK_VERDICTS_def hashable_def)

text \<open>
  Claim C10. A record that has \<^verbatim>\<open>homework_name\<close> but no \<^verbatim>\<open>status\<close> field makes
  \<^verbatim>\<open>parse_status\<close> raise the unknown-status \<^verbatim>\<open>KeyError\<close>, whose message ends in
  \<^verbatim>\<open>None\<close>; the missing-name \<^verbatim>\<open>KeyError\<close> is raised exactly when the
  \<^verbatim>\<open>homework_name\<close> field is absent.
\<close>

theorem parse_status_missing_status:
  "(dict_has d ''homework_name'' \<and> \<not> dict_has d ''status'' \<longrightarrow>
      parse_status repr (JDict d) = Inl (KeyError (unknown_status_prefix @ ''None'')))
   \<and> (parse_status repr (JDict d) = Inl (KeyError no_homework_name_text)
        \<longleftrightarrow> \<not> dict_has d ''homework_name'')"
proof (intro conjI impI)
  assume h: "dict_has d ''homework_name'' \<and> \<not> dict_has d ''status''"
  then have "dict_get d ''status'' = JNull"
    by (simp add: dict_get_def dict_has_def)
  then show "parse_status repr (JDict d) = Inl (KeyError (unknown_status_prefix @ ''None''))"
    using h by (simp add: parse_status_dict in_verdicts_def)
next
  show "parse_status repr (JDict d) = Inl (KeyError no_homework_name_text)
        \<longleftrightarrow> \<not> dict_has d ''homework_name''"
  proof (cases "dict_has d ''homework_name''")
    case False
    then show ?thesis by (simp add: parse_status_def py_in_def)
  next
    case True
    have "parse_status repr (JDict d) \<noteq> Inl (KeyError no_homework_name_text)"
    proof (cases "in_verdicts (dict_get d ''status'')")
      case (Inl e)
      then obtain m where "e = TypeError m" by (rule in_verdicts_Inl)
      with Inl True show ?thesis by (simp add: parse_status_dict)
    next
      case (Inr b)
      show ?thesis
      proof (cases b)
        case False
        with Inr True show ?thesis
          by (simp add: parse_status_dict no_name_not_unknown [symmetric])
      next
        case b: True
        with Inr have "in_verdicts (dict_get d ''status'') = Inr True" by simp
        then obtain verdict where "verdict_of (dict_get d ''status'') = Some verdict"
          using in_verdicts_True by blast
        with Inr b True show ?thesis by (simp add: parse_status_dict)
      qed
    qed
    with True show ?thesis by simp
  qed
qed

theorem parse_status_missing_status_witness:
  "dict_has [(''homework_name'', JStr ''proj1'')] ''homework_name''
   \<and> \<not> dict_has [(''homework_name'', JStr ''proj1'')] ''status''
   \<and> parse_status repr_plain (JDict [(''homework_name'', JStr ''proj1'')])
       = Inl (KeyError (unknown_status_prefix @ ''None''))
   \<and> parse_status repr_plain (JDict [(''homework_name'', JStr ''proj1'')])
       \<noteq> Inl (KeyError no_homework_name_text)
   \<and> parse_status repr_plain (JDict [(''status'', JStr ''approved'')])
       = Inl (KeyError no_homework_name_text)"
  using parse_status_missing_status
      [where d = "[(''homework_name'', JStr ''proj1'')]" and repr = repr_plain]
    parse_status_missing_status
      [where d = "[(''status'', JStr ''approved'')]" and repr = repr_plain]
  by (simp add: dict_has_def no_name_not_unknown [symmetric])

subsection \<open>One cycle of the loop\<close>

lemma try_body_fetch_failed:
  "api_answer repr (http env) = Inl e \<Longrightarrow>
   try_body repr env st = (Some e, st, [Request (request_timestamp env (current_timestamp st))])"
  by (simp add: try_body_def get_api_answer_def)

lemma try_body_not_dict:
  "api_answer repr (http env) = Inr response \<Longrightarrow> py_get response ''current_date'' = Inl e \<Longrightarrow>
   try_body repr env st = (Some e, st, [Request (request_timestamp env (current_timestamp st))])"
  by (simp add: try_body_def get_api_answer_def)

lemma try_body_dict:
  "api_answer repr (http env) = Inr (JDict d) \<Longrightarrow>
   try_body repr env st =
     (case cycle_message repr env of
        Inl e \<Rightarrow> (Some e, st\<lparr>current_timestamp := dict_get d ''current_date''\<rparr>,
                  [Request (request_timestamp env (current_timestamp st))])
      | Inr m \<Rightarrow>
          if m \<noteq> last_message st
          then (case tg_status env of
                  None \<Rightarrow> (None, st\<lparr>current_timestamp := dict_get d ''current_date'',
                                     last_message := m\<rparr>,
                            [Request (request_timestamp env (current_timestamp st)), Send m True])
                | Some x \<Rightarrow> (Some (Exception (send_failed_prefix @ x)),
                             st\<lparr>current_timestamp := dict_get d ''current_date''\<rparr>,
                             [Request (request_timestamp env (current_timestamp st)), Send m False]))
          else (None, st\<lparr>current_timestamp := dict_get d ''current_date''\<rparr>,
                [Request (request_timestamp env (current_timestamp st))]))"
  by (simp add: try_body_def get_api_answer_def cycle_message_def
      py_get_def send_message_def split: sum.splits option.splits)

lemma py_get_cases:
  obtains (dict) d where "response = JDict d"
  | (other) e where "py_get response k = Inl e" "\<forall>d. response \<noteq> JDict d"
  by (cases response) (auto simp: py_get_def)

lemma try_body_cursor:
  "current_timestamp (fst (snd (try_body repr env st))) =
     (case api_answer repr (http env) of
        Inr (JDict d) \<Rightarrow> dict_get d ''current_date''
      | _ \<Rightarrow> current_timestamp st)"
proof (cases "api_answer repr (http env)")
  case (Inl e)
  then show ?thesis by (simp add: try_body_fetch_failed)
next
  case (Inr response)
  show ?thesis
  proof (cases response rule: py_get_cases [where k = "''current_date''"])
    case (dict d)
    with Inr show ?thesis
      by (simp add: try_body_dict split: sum.splits option.splits)
  next
    case (other e)
    with Inr have "try_body repr env st = (Some e, st, [Request (request_timestamp env (current_timestamp st))])"
      by (simp add: try_body_not_dict)
    moreover from other Inr have "(case api_answer repr (http env) of
        Inr (JDict d) \<Rightarrow> dict_get d ''current_date''
      | _ \<Rightarrow> current_timestamp st) = current_timestamp st"
      by (cases response) auto
    ultimately show ?thesis by simp
  qed
qed

lemma try_body_requests:
  "requests_made (snd (snd (try_body repr env st))) = [request_timestamp env (current_timestamp st)]"
proof (cases "api_answer repr (http env)")
  case (Inl e)
  then show ?thesis by (simp add: try_body_fetch_failed)
next
  case (Inr response)
  show ?thesis
  proof (cases response rule: py_get_cases [where k = "''current_date''"])
    case (dict d)
    with Inr show ?thesis
      by (simp add: try_body_dict split: sum.splits option.splits)
  next
    case (other e)
    with Inr show ?thesis by (simp add: try_body_not_dict)
  qed
qed

lemma cycle_state: "fst (snd (cycle repr env st)) = fst (snd (try_body repr env st))"
  by (simp add: cycle_def send_message_def split: prod.splits option.splits)

lemma requests_made_append: "requests_made (xs @ ys) = requests_made xs @ requests_made ys"
  by (induction xs rule: requests_made.induct) auto

lemma send_attempts_append: "send_attempts (xs @ ys) = send_attempts xs @ send_attempts ys"
  by (induction xs rule: send_attempts.induct) auto

lemma cycle_raised:
  "try_body repr env st = (Some e, st', ev) \<Longrightarrow>
   cycle repr env st =
     (case tg_failure env of None \<Rightarrow> None | Some x \<Rightarrow> Some (Exception (send_failed_prefix @ x)),
      st', ev @ [Send (failure_text repr e) (tg_failure env = None), Sleep RETRY_PERIOD])"
  by (simp add: cycle_def send_message_def split: option.splits)

lemma cycle_passed:
  "try_body repr env st = (None, st', ev) \<Longrightarrow>
   cycle repr env st = (None, st', ev @ [Sleep RETRY_PERIOD])"
  by (simp add: cycle_def)

lemma try_body_stage_error:
  assumes "cycle_message repr env = Inl e"
  shows "\<exists>st'. last_message st' = last_message st \<and>
           try_body repr env st = (Some e, st', [Request (request_timestamp env (current_timestamp st))])"
proof (cases "api_answer repr (http env)")
  case (Inl e')
  with assms show ?thesis by (simp add: try_body_fetch_failed cycle_message_def)
next
  case (Inr response)
  show ?thesis
  proof (cases response rule: py_get_cases [where k = "''current_date''"])
    case (dict d)
    with Inr assms show ?thesis by (simp add: try_body_dict)
  next
    case (other e')
    with Inr assms show ?thesis by (simp add: try_body_not_dict cycle_message_def)
  qed
qed

lemma cycle_requests:
  "requests_made (snd (snd (cycle repr env st))) = [request_timestamp env (current_timestamp st)]"
proof (cases "try_body repr env st")
  case (fields r st' ev)
  with try_body_requests [of repr env st] have ev: "requests_made ev = [request_timestamp env (current_timestamp st)]"
    by simp
  show ?thesis
  proof (cases r)
    case None
    with fields ev show ?thesis by (simp add: cycle_passed requests_made_append)
  next
    case (Some e)
    with fields ev show ?thesis by (simp add: cycle_raised requests_made_append)
  qed
qed

lemma cycle_stage_error:
  assumes "cycle_message repr env = Inl e"
  obtains st' where "last_message st' = last_message st"
    and "cycle repr env st =
      (case tg_failure env of None \<Rightarrow> None | Some x \<Rightarrow> Some (Exception (send_failed_prefix @ x)),
       st',
       [Request (request_timestamp env (current_timestamp st)),
        Send (failure_text repr e) (tg_failure env = None), Sleep RETRY_PERIOD])"
proof -
  from try_body_stage_error [OF assms, of st] obtain st' where
    l: "last_message st' = last_message st" and
    t: "try_body repr env st = (Some e, st', [Request (request_timestamp env (current_timestamp st))])"
    by blast
  from t have "cycle repr env st =
      (case tg_failure env of None \<Rightarrow> None | Some x \<Rightarrow> Some (Exception (send_failed_prefix @ x)),
       st',
       [Request (request_timestamp env (current_timestamp st))]
       @ [Send (failure_text repr e) (tg_failure env = None), Sleep RETRY_PERIOD])"
    by (rule cycle_raised)
  then have "cycle repr env st =
      (case tg_failure env of None \<Rightarrow> None | Some x \<Rightarrow> Some (Exception (send_failed_prefix @ x)),
       st',
       [Request (request_timestamp env (current_timestamp st)),
        Send (failure_text repr e) (tg_failure env = None), Sleep RETRY_PERIOD])"
    by simp
  with l show thesis by (rule that)
qed

lemma cycle_message_dict:
  assumes "cycle_message repr env = Inr m"
  obtains d where "api_answer repr (http env) = Inr (JDict d)"
proof -
  from assms obtain response where r: "api_answer repr (http env) = Inr response"
    by (cases "api_answer repr (http env)") (auto simp: cycle_message_def)
  with assms obtain d where "response = JDict d"
    by (cases response) (auto simp: cycle_message_def py_get_def)
  with r that show thesis by simp
qed

lemma cycle_delivered:
  assumes "cycle_message repr env = Inr m" and "tg_status env = None"
  obtains st' ev where "cycle repr env st = (None, st', ev)"
    and "last_message st' = m"
    and "send_attempts ev = (if m \<noteq> last_message st then [m] else [])"
proof -
  from assms(1) obtain d where d: "api_answer repr (http env) = Inr (JDict d)"
    by (rule cycle_message_dict)
  let ?st1 = "st\<lparr>current_timestamp := dict_get d ''current_date''\<rparr>"
  let ?rq = "Request (request_timestamp env (current_timestamp st))"
  show thesis
  proof (cases "m = last_message st")
    case True
    with d assms have "try_body repr env st = (None, ?st1, [?rq])"
      by (simp add: try_body_dict)
    then have "cycle repr env st = (None, ?st1, [?rq] @ [Sleep RETRY_PERIOD])"
      by (rule cycle_passed)
    moreover have "last_message ?st1 = m" using True by simp
    moreover have "send_attempts ([?rq] @ [Sleep RETRY_PERIOD])
        = (if m \<noteq> last_message st then [m] else [])"
      using True by simp
    ultimately show thesis by (rule that)
  next
    case False
    with d assms have "try_body repr env st = (None, ?st1\<lparr>last_message := m\<rparr>, [?rq, Send m True])"
      by (simp add: try_body_dict)
    then have "cycle repr env st
        = (None, ?st1\<lparr>last_message := m\<rparr>, [?rq, Send m True] @ [Sleep RETRY_PERIOD])"
      by (rule cycle_passed)
    moreover have "last_message (?st1\<lparr>last_message := m\<rparr>) = m" by simp
    moreover have "send_attempts ([?rq, Send m True] @ [Sleep RETRY_PERIOD])
        = (if m \<noteq> last_message st then [m] else [])"
      using False by simp
    ultimately show thesis by (rule that)
  qed
qed

lemma main_loop_continues:
  "cycle repr env st = (None, st', ev) \<Longrightarrow>
   send_attempts (snd (snd (main_loop repr (env # envs) st)))
     = send_attempts ev @ send_attempts (snd (snd (main_loop repr envs st')))
   \<and> fst (main_loop repr (env # envs) st) = fst (main_loop repr envs st')"
  by (simp add: send_attempts_append split: prod.splits)

lemma main_loop_requests:
  "cycle repr env st = (None, st', ev) \<Longrightarrow>
   requests_made (snd (snd (main_loop repr (env # envs) st)))
     = requests_made ev @ requests_made (snd (snd (main_loop repr envs st')))"
  by (simp add: requests_made_append split: prod.splits)

lemma two_cycle_requests:
  assumes "fst (cycle repr env1 st) = None"
  shows "requests_made (snd (snd (main_loop repr [env1, env2] st)))
     = [request_timestamp env1 (current_timestamp st),
        request_timestamp env2 (current_timestamp (fst (snd (cycle repr env1 st))))]"
proof -
  obtain r st' ev where c: "cycle repr env1 st = (r, st', ev)"
    by (cases "cycle repr env1 st")
  with assms have c1: "cycle repr env1 st = (None, st', ev)" by simp
  have e1: "requests_made ev = [request_timestamp env1 (current_timestamp st)]"
    using cycle_requests [of repr env1 st] c1 by simp
  obtain r2 st2 ev2 where c2: "cycle repr env2 st' = (r2, st2, ev2)"
    by (cases "cycle repr env2 st'")
  have e2: "requests_made ev2 = [request_timestamp env2 (current_timestamp st')]"
    using cycle_requests [of repr env2 st'] c2 by simp
  have "requests_made (snd (snd (main_loop repr [env2] st'))) = requests_made ev2"
    using c2 by (cases r2) (simp_all add: requests_made_append)
  with main_loop_requests [OF c1, of "[env2]"] e1 e2 c1 show ?thesis by simp
qed

lemma parse_status_text:
  assumes "parse_status repr homework = Inr m"
  obtains x where "m = status_changed_prefix @ x"
  using assms
  by (auto simp: parse_status_def split: sum.splits bool.splits option.splits)

lemma status_unchanged_text_nonempty: "status_unchanged_text \<noteq> []"
  by (simp add: status_unchanged_text_def)

lemma render_nonempty:
  assumes "render repr hs = Inr m"
  shows "m \<noteq> []"
proof (cases hs)
  case Nil
  with assms status_unchanged_text_nonempty show ?thesis by (auto simp: render_def)
next
  case (Cons h rest)
  with assms have "parse_status repr h = Inr m" by (simp add: render_def)
  then obtain x where "m = status_changed_prefix @ x" by (rule parse_status_text)
  then show ?thesis by (simp add: status_changed_prefix_def)
qed

lemma cycle_message_nonempty:
  assumes "cycle_message repr env = Inr m"
  shows "m \<noteq> []"
proof -
  from assms obtain hs where "render repr hs = Inr m"
    by (auto simp: cycle_message_def split: sum.splits)
  then show ?thesis by (rule render_nonempty)
qed

lemma four_cycles:
  assumes "cycle_message repr e1 = Inr m1" and "cycle_message repr e2 = Inr m1"
    and "cycle_message repr e3 = Inr m2" and "cycle_message repr e4 = Inr m1"
    and "m1 \<noteq> m2"
    and "tg_status e1 = None" and "tg_status e2 = None"
    and "tg_status e3 = None" and "tg_status e4 = None"
    and "last_message (st :: bot_state) \<noteq> m1"
  shows "send_attempts (snd (snd (main_loop repr [e1, e2, e3, e4] st))) = [m1, m2, m1]"
proof -
  from assms(1,6) obtain s1 v1 where c1: "cycle repr e1 st = (None, s1, v1)"
    and l1: "last_message s1 = m1"
    and a1: "send_attempts v1 = (if m1 \<noteq> last_message st then [m1] else [])"
    by (rule cycle_delivered)
  from assms(2,7) obtain s2 v2 where c2: "cycle repr e2 s1 = (None, s2, v2)"
    and l2: "last_message s2 = m1"
    and a2: "send_attempts v2 = (if m1 \<noteq> last_message s1 then [m1] else [])"
    by (rule cycle_delivered)
  from assms(3,8) obtain s3 v3 where c3: "cycle repr e3 s2 = (None, s3, v3)"
    and l3: "last_message s3 = m2"
    and a3: "send_attempts v3 = (if m2 \<noteq> last_message s2 then [m2] else [])"
    by (rule cycle_delivered)
  from assms(4,9) obtain s4 v4 where c4: "cycle repr e4 s3 = (None, s4, v4)"
    and l4: "last_message s4 = m1"
    and a4: "send_attempts v4 = (if m1 \<noteq> last_message s3 then [m1] else [])"
    by (rule cycle_delivered)
  have v1: "send_attempts v1 = [m1]" using a1 assms(10) by simp
  have v2: "send_attempts v2 = []" using a2 l1 by simp
  have v3: "send_attempts v3 = [m2]" using a3 l2 assms(5) by simp
  have v4: "send_attempts v4 = [m1]" using a4 l3 assms(5) by simp
  have r4: "send_attempts (snd (snd (main_loop repr [e4] s3))) = [m1]"
    using main_loop_continues [OF c4, of "[]"] v4 by simp
  have r3: "send_attempts (snd (snd (main_loop repr [e3, e4] s2))) = [m2, m1]"
    using main_loop_continues [OF c3, of "[e4]"] v3 r4 by simp
  have r2: "send_attempts (snd (snd (main_loop repr [e2, e3, e4] s1))) = [m2, m1]"
    using main_loop_continues [OF c2, of "[e3, e4]"] v2 r3 by simp
  show ?thesis
    using main_loop_continues [OF c1, of "[e2, e3, e4]"] v1 r2 by simp
qed

lemma repeated_failures:
  assumes "\<forall>env \<in> set envs. cycle_message repr env = Inl e \<and> tg_failure env = None"
  shows "send_attempts (snd (snd (main_loop repr envs st)))
           = replicate (length envs) (failure_text repr e)
         \<and> fst (main_loop repr envs st) = None"
  using assms
proof (induction envs arbitrary: st)
  case Nil
  show ?case by simp
next
  case (Cons env envs)
  then have m: "cycle_message repr env = Inl e" and f: "tg_failure env = None" by simp_all
  from m obtain st' where c: "cycle repr env st =
      (case tg_failure env of None \<Rightarrow> None | Some x \<Rightarrow> Some (Exception (send_failed_prefix @ x)),
       st',
       [Request (request_timestamp env (current_timestamp st)),
        Send (failure_text repr e) (tg_failure env = None), Sleep RETRY_PERIOD])"
    by (rule cycle_stage_error)
  with f have c': "cycle repr env st =
      (None, st', [Request (request_timestamp env (current_timestamp st)),
                   Send (failure_text repr e) True, Sleep RETRY_PERIOD])"
    by simp
  from Cons have "send_attempts (snd (snd (main_loop repr envs st')))
           = replicate (length envs) (failure_text repr e)
         \<and> fst (main_loop repr envs st') = None"
    by simp
  with main_loop_continues [OF c', of envs] show ?case by simp
qed

text \<open>Unfolding sets for evaluating the example inputs.\<close>

lemmas example_defs =
  answer_with_def answer_without_homeworks_def env_answer_def env_timeout_def env_offline_def
  homework_record_def initial_state_def

lemmas run_defs =
  cycle_def try_body_def get_api_answer_def api_answer_def request_body_def
  request_timestamp_def py_get_def check_response_def render_def send_message_def
  dict_has_def dict_get_def HTTP_OK_def failure_text_def

lemmas parse_defs =
  parse_status_def py_in_def in_verdicts_def verdict_of_def HOMEWORK_VERDICTS_def

lemma example_message:
  "s \<in> known_verdicts \<Longrightarrow>
   cycle_message repr_plain (env_answer (answer_with [homework_record name s]))
     = Inr (status_changed_prefix @ name @ status_changed_infix
            @ the (map_of HOMEWORK_VERDICTS s))"
  by (auto simp: cycle_message_def example_defs run_defs parse_defs known_verdicts_def)

subsection \<open>The status fetcher\<close>

text \<open>
  Claim C7. One call of \<^verbatim>\<open>get_api_answer\<close> issues exactly one request. It returns
  the decoded body exactly when the answer has status 200 and a body that decodes;
  whatever else happens (another status code, an exception of the transport, a body
  that does not decode), the exception that leaves the function is
  \<^verbatim>\<open>APIEndPointIsNotAvailable\<close> and no other.
\<close>

theorem get_api_answer_single_attempt:
  "snd (get_api_answer repr env cur) = [Request (request_timestamp env cur)]
   \<and> (\<forall>e. fst (get_api_answer repr env cur) = Inl e \<longrightarrow> EndpointUnavailable e)
   \<and> (\<forall>j. fst (get_api_answer repr env cur) = Inr j \<longleftrightarrow> http env = Response HTTP_OK (Inr j))"
  by (auto simp: get_api_answer_def api_answer_def request_body_def EndpointUnavailable_def
      split: http_result.splits sum.splits if_splits)

theorem get_api_answer_single_attempt_witness:
  "get_api_answer repr_plain env_timeout (JInt 1667322796)
     = (Inl (APIEndPointIsNotAvailable (request_failed_prefix @ ''timed out'')),
        [Request (JInt 1667322796)])
   \<and> EndpointUnavailable (APIEndPointIsNotAvailable (request_failed_prefix @ ''timed out''))
   \<and> fst (get_api_answer repr_plain (env_answer (answer_with [])) JNull) = Inr (answer_with [])
   \<and> snd (get_api_answer repr_plain (env_answer (answer_with [])) JNull)
       = [Request (JInt 1700000600)]"
  using get_api_answer_single_attempt
      [where repr = repr_plain and env = env_timeout and cur = "JInt 1667322796"]
    get_api_answer_single_attempt
      [where repr = repr_plain and env = "env_answer (answer_with [])" and cur = JNull]
  by (simp add: get_api_answer_def api_answer_def request_body_def request_timestamp_def
      env_timeout_def env_answer_def HTTP_OK_def EndpointUnavailable_def)

subsection \<open>The message of a cycle\<close>

text \<open>
  For an answer with an empty \<^verbatim>\<open>homeworks\<close> list the message is not the English
  text \<^verbatim>\<open>Status unchanged.\<close> of the specification: the literal of line 161 is
  Cyrillic and has no full stop.
\<close>

theorem empty_homeworks_message_not_english:
  "api_answer repr_plain (http (env_answer (answer_with []))) = Inr (answer_with [])
   \<and> check_response repr_plain (answer_with []) = Inr []
   \<and> cycle_message repr_plain (env_answer (answer_with [])) \<noteq> Inr ''Status unchanged.''"
  by (simp add: cycle_message_def example_defs run_defs status_unchanged_text_def)

text \<open>
  Claim C8, with the literal of the source. When the fetch succeeds and validation
  returns an empty list, the message of the cycle is exactly the literal of line 161
  (\<^const>\<open>status_unchanged_text\<close>); \<^const>\<open>render\<close> does not call
  \<^verbatim>\<open>parse_status\<close> on an empty list.
\<close>

theorem empty_homeworks_message:
  assumes "api_answer repr (http env) = Inr response"
    and "check_response repr response = Inr []"
  shows "cycle_message repr env = Inr status_unchanged_text"
proof -
  from assms(2) obtain d where "response = JDict d"
    by (cases response) (auto simp: check_response_def)
  with assms show ?thesis
    by (simp add: cycle_message_def py_get_def render_def)
qed

theorem empty_homeworks_message_witness:
  "api_answer repr_plain (http (env_answer (answer_with []))) = Inr (answer_with [])
   \<and> check_response repr_plain (answer_with []) = Inr []
   \<and> cycle_message repr_plain (env_answer (answer_with [])) = Inr status_unchanged_text"
proof -
  have f: "api_answer repr_plain (http (env_answer (answer_with []))) = Inr (answer_with [])"
    by (simp add: example_defs run_defs)
  have v: "check_response repr_plain (answer_with []) = Inr []"
    by (simp add: example_defs run_defs)
  from empty_homeworks_message [OF f v] f v show ?thesis by simp
qed

subsection \<open>The cursor\<close>

text \<open>
  An answer that carries \<^verbatim>\<open>current_date\<close> but no \<^verbatim>\<open>homeworks\<close> key fails
  validation, and yet the cursor has moved: line 156 assigns it before line 157
  validates. The next cycle requests from the new cursor.
\<close>

theorem cursor_advances_before_validation:
  "check_response repr_plain answer_without_homeworks
     = Inl (NonCorrectResponseFromAPI no_homeworks_key_text)
   \<and> current_timestamp initial_state = JInt 1667322796
   \<and> current_timestamp (fst (snd (cycle repr_plain (env_answer answer_without_homeworks) initial_state)))
       = JInt 1700000000
   \<and> requests_made (snd (snd (main_loop repr_plain
        [env_answer answer_without_homeworks, env_answer answer_without_homeworks] initial_state)))
       = [JInt 1667322796, JInt 1700000000]"
  by (simp add: example_defs run_defs)

text \<open>
  Claim C1, as the code has it. The cursor after a cycle is the \<^verbatim>\<open>current_date\<close>
  of the fetched answer (\<^verbatim>\<open>None\<close> when the key is absent) whenever the fetch
  returned a mapping, whatever validation, extraction and sending do afterwards; it is
  the old cursor whenever the fetch failed or returned something that is not a
  mapping. Every cycle makes one request, and a cycle that follows one the loop
  survived requests from the cursor that cycle left, or from its own clock when that
  cursor is falsy (line 63). So after a failed fetch the next cycle asks again for the
  same timestamp when the cursor is truthy, and for the time of the new request when
  the cursor is \<^verbatim>\<open>None\<close> or zero.
\<close>

theorem cursor_follows_fetch:
  "(\<forall>d. api_answer repr (http env) = Inr (JDict d) \<longrightarrow>
        current_timestamp (fst (snd (cycle repr env st))) = dict_get d ''current_date'')
   \<and> ((\<forall>d. api_answer repr (http env) \<noteq> Inr (JDict d)) \<longrightarrow>
        current_timestamp (fst (snd (cycle repr env st))) = current_timestamp st)
   \<and> requests_made (snd (snd (cycle repr env st))) = [request_timestamp env (current_timestamp st)]
   \<and> (\<forall>env2. fst (cycle repr env st) = None \<longrightarrow>
         requests_made (snd (snd (main_loop repr [env, env2] st)))
           = [request_timestamp env (current_timestamp st),
              request_timestamp env2 (current_timestamp (fst (snd (cycle repr env st))))])
   \<and> (\<forall>env2. (\<forall>d. api_answer repr (http env) \<noteq> Inr (JDict d)) \<and> fst (cycle repr env st) = None
           \<longrightarrow> requests_made (snd (snd (main_loop repr [env, env2] st)))
                 = (if py_truthy (current_timestamp st)
                    then [current_timestamp st, current_timestamp st]
                    else [JInt (clock env), JInt (clock env2)]))"
proof (intro conjI allI impI)
  fix d assume "api_answer repr (http env) = Inr (JDict d)"
  then show "current_timestamp (fst (snd (cycle repr env st))) = dict_get d ''current_date''"
    by (simp add: cycle_state try_body_cursor)
next
  assume "\<forall>d. api_answer repr (http env) \<noteq> Inr (JDict d)"
  then show "current_timestamp (fst (snd (cycle repr env st))) = current_timestamp st"
    by (simp add: cycle_state try_body_cursor split: sum.splits json.splits)
next
  show "requests_made (snd (snd (cycle repr env st))) = [request_timestamp env (current_timestamp st)]"
    by (rule cycle_requests)
next
  fix env2 assume "fst (cycle repr env st) = None"
  then show "requests_made (snd (snd (main_loop repr [env, env2] st)))
           = [request_timestamp env (current_timestamp st),
              request_timestamp env2 (current_timestamp (fst (snd (cycle repr env st))))]"
    by (rule two_cycle_requests)
next
  fix env2
  assume h: "(\<forall>d. api_answer repr (http env) \<noteq> Inr (JDict d)) \<and> fst (cycle repr env st) = None"
  then have u: "current_timestamp (fst (snd (cycle repr env st))) = current_timestamp st"
    by (simp add: cycle_state try_body_cursor split: sum.splits json.splits)
  from h have "fst (cycle repr env st) = None" by simp
  then have "requests_made (snd (snd (main_loop repr [env, env2] st)))
           = [request_timestamp env (current_timestamp st),
              request_timestamp env2 (current_timestamp (fst (snd (cycle repr env st))))]"
    by (rule two_cycle_requests)
  with u show "requests_made (snd (snd (main_loop repr [env, env2] st)))
                 = (if py_truthy (current_timestamp st)
                    then [current_timestamp st, current_timestamp st]
                    else [JInt (clock env), JInt (clock env2)])"
    by (simp add: request_timestamp_def)
qed

theorem cursor_follows_fetch_witness:
  "api_answer repr_plain (http (env_answer answer_without_homeworks)) = Inr answer_without_homeworks
   \<and> current_timestamp (fst (snd (cycle repr_plain (env_answer answer_without_homeworks) initial_state)))
       = JInt 1700000000
   \<and> current_timestamp (fst (snd (cycle repr_plain env_timeout initial_state))) = JInt 1667322796
   \<and> fst (cycle repr_plain env_timeout initial_state) = None
   \<and> requests_made (snd (snd (main_loop repr_plain [env_timeout, env_timeout] initial_state)))
       = [JInt 1667322796, JInt 1667322796]
   \<and> requests_made (snd (snd (main_loop repr_plain
         [env_timeout, env_timeout\<lparr>clock := 1700001200\<rparr>]
         (initial_state\<lparr>current_timestamp := JNull\<rparr>))))
       = [JInt 1700000600, JInt 1700001200]"
  using cursor_follows_fetch
      [where repr = repr_plain and env = "env_answer answer_without_homeworks"
         and st = initial_state]
    cursor_follows_fetch [where repr = repr_plain and env = env_timeout and st = initial_state]
    cursor_follows_fetch
      [where repr = repr_plain and env = env_timeout
         and st = "initial_state\<lparr>current_timestamp := JNull\<rparr>",
       THEN conjunct2, THEN conjunct2, THEN conjunct2, THEN conjunct2, rule_format,
       where ?env2.0 = "env_timeout\<lparr>clock := 1700001200\<rparr>"]
  by (simp add: example_defs run_defs RETRY_PERIOD_def)

subsection \<open>The error path\<close>

text \<open>
  When the fetch fails and Telegram cannot be reached, the failure notice is attempted
  once, \<^verbatim>\<open>send_message\<close> raises out of the \<^verbatim>\<open>except\<close> block, and the loop
  ends after the sleep: the second cycle never runs.
\<close>

theorem failed_failure_notice_ends_loop:
  "cycle_message repr_plain env_offline
     = Inl (APIEndPointIsNotAvailable (request_failed_prefix @ ''timed out''))
   \<and> main_loop repr_plain [env_offline, env_timeout] initial_state
     = (Some (Exception (send_failed_prefix @ ''no route'')), initial_state,
        [Request (JInt 1667322796),
         Send (failure_prefix @ request_failed_prefix @ ''timed out'') False,
         Sleep 600])"
  by (simp add: example_defs run_defs cycle_message_def RETRY_PERIOD_def)

text \<open>
  Claim C2, as the code has it. When fetch, validation or extraction raises in a cycle,
  exactly one message is handed to Telegram, the failure notice built from the
  exception. If it is delivered the cycle ends normally and the loop goes on. If its
  delivery fails, the exception of \<^verbatim>\<open>send_message\<close> leaves the cycle and the loop
  ends with it.
\<close>

theorem failure_is_notified_once:
  assumes "cycle_message repr env = Inl e"
  shows "send_attempts (snd (snd (cycle repr env st))) = [failure_text repr e]
       \<and> (tg_failure env = None \<longrightarrow> fst (cycle repr env st) = None)
       \<and> (\<forall>x. tg_failure env = Some x \<longrightarrow>
             fst (cycle repr env st) = Some (Exception (send_failed_prefix @ x))
             \<and> main_loop repr (env # envs) st = cycle repr env st)"
proof -
  from assms obtain st' where
    "try_body repr env st = (Some e, st', [Request (request_timestamp env (current_timestamp st))])"
    using try_body_stage_error by blast
  then have c: "cycle repr env st =
     (case tg_failure env of None \<Rightarrow> None | Some x \<Rightarrow> Some (Exception (send_failed_prefix @ x)),
      st', [Request (request_timestamp env (current_timestamp st))] @ [Send (failure_text repr e) (tg_failure env = None), Sleep RETRY_PERIOD])"
    by (rule cycle_raised)
  show ?thesis
    by (simp add: c)
qed

theorem failure_is_notified_once_witness:
  "cycle_message repr_plain env_timeout
     = Inl (APIEndPointIsNotAvailable (request_failed_prefix @ ''timed out''))
   \<and> send_attempts (snd (snd (cycle repr_plain env_timeout initial_state)))
       = [failure_prefix @ request_failed_prefix @ ''timed out'']
   \<and> fst (cycle repr_plain env_timeout initial_state) = None
   \<and> fst (cycle repr_plain env_offline initial_state)
       = Some (Exception (send_failed_prefix @ ''no route''))"
  using failure_is_notified_once
      [where repr = repr_plain and env = env_timeout and st = initial_state
         and e = "APIEndPointIsNotAvailable (request_failed_prefix @ ''timed out'')"]
    failure_is_notified_once
      [where repr = repr_plain and env = env_offline and st = initial_state
         and e = "APIEndPointIsNotAvailable (request_failed_prefix @ ''timed out'')"]
  by (simp add: example_defs cycle_message_def api_answer_def request_body_def failure_text_def)

text \<open>
  Claim C9. The failure notice is sent without looking at \<^verbatim>\<open>last_message\<close>:
  whenever the \<^verbatim>\<open>try\<close> block raises, the notice is handed to Telegram after
  whatever the block had sent, even when \<^verbatim>\<open>last_message\<close> already equals its
  text; and when the same error comes back in each of a series of cycles (each notice
  being delivered), the same notice is sent once per cycle.
\<close>

theorem failure_notice_not_deduplicated:
  assumes "\<forall>env \<in> set envs. cycle_message repr env = Inl e \<and> tg_failure env = None"
  shows "send_attempts (snd (snd (main_loop repr envs st)))
           = replicate (length envs) (failure_text repr e)
       \<and> (\<forall>env \<in> set envs.
            send_attempts (snd (snd (cycle repr env (st\<lparr>last_message := failure_text repr e\<rparr>))))
              = [failure_text repr e])
       \<and> (\<forall>env0 st0 e0 st' ev. try_body repr env0 st0 = (Some e0, st', ev) \<longrightarrow>
            send_attempts (snd (snd (cycle repr env0 st0))) = send_attempts ev @ [failure_text repr e0])"
proof (intro conjI ballI allI impI)
  from assms show "send_attempts (snd (snd (main_loop repr envs st)))
           = replicate (length envs) (failure_text repr e)"
    using repeated_failures by blast
next
  fix env assume "env \<in> set envs"
  with assms have "cycle_message repr env = Inl e" by simp
  then obtain st' where "cycle repr env (st\<lparr>last_message := failure_text repr e\<rparr>) =
      (case tg_failure env of None \<Rightarrow> None | Some x \<Rightarrow> Some (Exception (send_failed_prefix @ x)),
       st',
       [Request (request_timestamp env (current_timestamp (st\<lparr>last_message := failure_text repr e\<rparr>))),
        Send (failure_text repr e) (tg_failure env = None), Sleep RETRY_PERIOD])"
    by (rule cycle_stage_error)
  then show "send_attempts (snd (snd (cycle repr env (st\<lparr>last_message := failure_text repr e\<rparr>))))
      = [failure_text repr e]"
    by simp
next
  fix env0 :: cycle_env and st0 :: bot_state and e0 st' ev
  assume "try_body repr env0 st0 = (Some e0, st', ev)"
  then have "cycle repr env0 st0 =
     (case tg_failure env0 of None \<Rightarrow> None | Some x \<Rightarrow> Some (Exception (send_failed_prefix @ x)),
      st', ev @ [Send (failure_text repr e0) (tg_failure env0 = None), Sleep RETRY_PERIOD])"
    by (rule cycle_raised)
  then show "send_attempts (snd (snd (cycle repr env0 st0))) = send_attempts ev @ [failure_text repr e0]"
    by (simp add: send_attempts_append)
qed

theorem failure_notice_not_deduplicated_witness:
  "cycle_message repr_plain env_timeout
     = Inl (APIEndPointIsNotAvailable (request_failed_prefix @ ''timed out''))
   \<and> tg_failure env_timeout = None
   \<and> send_attempts (snd (snd (main_loop repr_plain [env_timeout, env_timeout, env_timeout]
        initial_state)))
     = [failure_prefix @ request_failed_prefix @ ''timed out'',
        failure_prefix @ request_failed_prefix @ ''timed out'',
        failure_prefix @ request_failed_prefix @ ''timed out'']"
proof -
  have m: "cycle_message repr_plain env_timeout
      = Inl (APIEndPointIsNotAvailable (request_failed_prefix @ ''timed out''))"
    and f: "tg_failure env_timeout = None"
    by (simp_all add: cycle_message_def env_timeout_def api_answer_def request_body_def)
  then have h: "\<forall>env \<in> set [env_timeout, env_timeout, env_timeout].
      cycle_message repr_plain env
        = Inl (APIEndPointIsNotAvailable (request_failed_prefix @ ''timed out''))
      \<and> tg_failure env = None"
    by simp
  from failure_notice_not_deduplicated [OF h, of initial_state] m f show ?thesis
    by (simp add: failure_text_def numeral_3_eq_3)
qed

subsection \<open>Deduplication\<close>

text \<open>
  Claim C3. Four consecutive cycles whose messages are \<open>m1\<close>, \<open>m1\<close>, \<open>m2\<close>,
  \<open>m1\<close> with \<open>m1 \<noteq> m2\<close>, each delivered by Telegram, hand exactly \<open>m1\<close>,
  \<open>m2\<close>, \<open>m1\<close> to Telegram: from the initial state, and from any state whose
  \<^verbatim>\<open>last_message\<close> differs from \<open>m1\<close>. In a single cycle the message is sent if
  and only if it differs from \<^verbatim>\<open>last_message\<close>.
\<close>

theorem dedup_against_last_sent:
  assumes "cycle_message repr e1 = Inr m1" and "cycle_message repr e2 = Inr m1"
    and "cycle_message repr e3 = Inr m2" and "cycle_message repr e4 = Inr m1"
    and "m1 \<noteq> m2"
    and "tg_status e1 = None" and "tg_status e2 = None"
    and "tg_status e3 = None" and "tg_status e4 = None"
  shows "send_attempts (snd (snd (main_loop repr [e1, e2, e3, e4] initial_state))) = [m1, m2, m1]
       \<and> (\<forall>st :: bot_state. last_message st \<noteq> m1 \<longrightarrow>
             send_attempts (snd (snd (main_loop repr [e1, e2, e3, e4] st))) = [m1, m2, m1])
       \<and> (\<forall>st. m1 \<in> set (send_attempts (snd (snd (cycle repr e1 st))))
                 \<longleftrightarrow> m1 \<noteq> last_message st)"
proof (intro conjI allI impI)
  have "m1 \<noteq> []" using assms(1) by (rule cycle_message_nonempty)
  then have "last_message initial_state \<noteq> m1" by (simp add: initial_state_def)
  with assms show "send_attempts (snd (snd (main_loop repr [e1, e2, e3, e4] initial_state)))
      = [m1, m2, m1]"
    by (rule four_cycles)
next
  fix st :: bot_state assume "last_message st \<noteq> m1"
  with assms show "send_attempts (snd (snd (main_loop repr [e1, e2, e3, e4] st))) = [m1, m2, m1]"
    by (rule four_cycles)
next
  fix st
  from assms(1,6) obtain s1 v1 where "cycle repr e1 st = (None, s1, v1)"
    and "send_attempts v1 = (if m1 \<noteq> last_message st then [m1] else [])"
    by (rule cycle_delivered)
  then show "m1 \<in> set (send_attempts (snd (snd (cycle repr e1 st)))) \<longleftrightarrow> m1 \<noteq> last_message st"
    by simp
qed

theorem dedup_against_last_sent_witness:
  "cycle_message repr_plain (env_answer (answer_with [homework_record ''proj1'' ''reviewing'']))
     = Inr (status_changed_prefix @ ''proj1'' @ status_changed_infix @ verdict_reviewing)
   \<and> cycle_message repr_plain (env_answer (answer_with [homework_record ''proj1'' ''approved'']))
     = Inr (status_changed_prefix @ ''proj1'' @ status_changed_infix @ verdict_approved)
   \<and> status_changed_prefix @ ''proj1'' @ status_changed_infix @ verdict_reviewing
       \<noteq> status_changed_prefix @ ''proj1'' @ status_changed_infix @ verdict_approved
   \<and> send_attempts (snd (snd (main_loop repr_plain
        [env_answer (answer_with [homework_record ''proj1'' ''reviewing'']),
         env_answer (answer_with [homework_record ''proj1'' ''reviewing'']),
         env_answer (answer_with [homework_record ''proj1'' ''approved'']),
         env_answer (answer_with [homework_record ''proj1'' ''reviewing''])]
        initial_state)))
     = [status_changed_prefix @ ''proj1'' @ status_changed_infix @ verdict_reviewing,
        status_changed_prefix @ ''proj1'' @ status_changed_infix @ verdict_approved,
        status_changed_prefix @ ''proj1'' @ status_changed_infix @ verdict_reviewing]"
proof -
  let ?eR = "env_answer (answer_with [homework_record ''proj1'' ''reviewing''])"
  let ?eA = "env_answer (answer_with [homework_record ''proj1'' ''approved''])"
  let ?mR = "status_changed_prefix @ ''proj1'' @ status_changed_infix @ verdict_reviewing"
  let ?mA = "status_changed_prefix @ ''proj1'' @ status_changed_infix @ verdict_approved"
  have r: "cycle_message repr_plain ?eR = Inr ?mR"
    using example_message [of "''reviewing''" "''proj1''"]
    by (simp add: known_verdicts_def HOMEWORK_VERDICTS_def)
  have a: "cycle_message repr_plain ?eA = Inr ?mA"
    using example_message [of "''approved''" "''proj1''"]
    by (simp add: known_verdicts_def HOMEWORK_VERDICTS_def)
  have ne: "?mR \<noteq> ?mA"
    by (simp add: verdict_reviewing_def verdict_approved_def)
  have tR: "tg_status ?eR = None" and tA: "tg_status ?eA = None"
    by (simp_all add: env_answer_def)
  from dedup_against_last_sent [OF r r a r ne tR tR tA tR] r a ne show ?thesis by simp
qed

text \<open>
  After a cycle whose fetch failed, the last text delivered through Telegram is the
  failure notice, while \<^verbatim>\<open>last_message\<close> is still empty.
\<close>

theorem failure_notice_leaves_last_message:
  "cycle repr_plain env_timeout initial_state
     = (None, initial_state,
        [Request (JInt 1667322796),
         Send (failure_prefix @ request_failed_prefix @ ''timed out'') True,
         Sleep 600])
   \<and> last_message initial_state \<noteq> failure_prefix @ request_failed_prefix @ ''timed out''"
  by (simp add: example_defs run_defs RETRY_PERIOD_def failure_prefix_def)

text \<open>
  Claim C4, as the code has it. After a cycle \<^verbatim>\<open>last_message\<close> is the status
  message of that cycle if it differed from the previous \<^verbatim>\<open>last_message\<close> and was
  delivered, and is unchanged otherwise; in particular a cycle that ends in the error
  path never changes it. Whenever it changes, the new text has just been delivered.
\<close>

theorem last_message_follows_status_sends:
  "last_message (fst (snd (cycle repr env st)))
     = (case cycle_message repr env of
          Inr m \<Rightarrow> if m \<noteq> last_message st \<and> tg_status env = None then m else last_message st
        | Inl e \<Rightarrow> last_message st)
   \<and> (\<forall>m. cycle_message repr env = Inr m \<and> m \<noteq> last_message st \<and> tg_status env = None \<longrightarrow>
         Send m True \<in> set (snd (snd (cycle repr env st))))"
proof (cases "cycle_message repr env")
  case (Inl e)
  then obtain st' where "last_message st' = last_message st"
    and "try_body repr env st = (Some e, st', [Request (request_timestamp env (current_timestamp st))])"
    using try_body_stage_error by blast
  with Inl show ?thesis by (simp add: cycle_state)
next
  case (Inr m)
  then obtain d where d: "api_answer repr (http env) = Inr (JDict d)"
    by (rule cycle_message_dict)
  have s: "last_message (fst (snd (cycle repr env st)))
     = (if m \<noteq> last_message st \<and> tg_status env = None then m else last_message st)"
    using d Inr by (simp add: cycle_state try_body_dict split: option.splits)
  have "Send m True \<in> set (snd (snd (cycle repr env st)))"
    if "m \<noteq> last_message st" and "tg_status env = None"
  proof -
    from that d Inr have "try_body repr env st =
        (None, st\<lparr>current_timestamp := dict_get d ''current_date'', last_message := m\<rparr>,
         [Request (request_timestamp env (current_timestamp st)), Send m True])"
      by (simp add: try_body_dict)
    then have "cycle repr env st =
        (None, st\<lparr>current_timestamp := dict_get d ''current_date'', last_message := m\<rparr>,
         [Request (request_timestamp env (current_timestamp st)), Send m True] @ [Sleep RETRY_PERIOD])"
      by (rule cycle_passed)
    then show ?thesis by simp
  qed
  with s Inr show ?thesis by simp
qed

theorem last_message_follows_status_sends_witness:
  "last_message (fst (snd (cycle repr_plain
       (env_answer (answer_with [homework_record ''proj1'' ''approved''])) initial_state)))
     = status_changed_prefix @ ''proj1'' @ status_changed_infix @ verdict_approved
   \<and> last_message (fst (snd (cycle repr_plain env_timeout initial_state))) = []"
  using last_message_follows_status_sends
      [where repr = repr_plain and st = initial_state
         and env = "env_answer (answer_with [homework_record ''proj1'' ''approved''])"]
    last_message_follows_status_sends
      [where repr = repr_plain and st = initial_state and env = env_timeout]
    example_message [of "''approved''" "''proj1''"]
  by (simp add: known_verdicts_def HOMEWORK_VERDICTS_def initial_state_def
      status_changed_prefix_def env_answer_def env_timeout_def cycle_message_def
      api_answer_def request_body_def)

end
